theory Spec2Isabelle
  imports Complex_Main "HOL-Library.Sublist" "HOL-Library.Word"
begin

section \<open>Strings\<close>

text \<open>
  Go strings are byte sequences; \<open>string\<close> is a list of 8-bit characters.
  \<open>strings.Contains(s, substr)\<close> holds when \<open>substr\<close> occurs in \<open>s\<close> as a contiguous
  block (the empty string occurs everywhere).
\<close>

fun strings_Contains :: "string \<Rightarrow> string \<Rightarrow> bool" where
  "strings_Contains [] substr = (substr = [])"
| "strings_Contains (c # s) substr = (prefix substr (c # s) \<or> strings_Contains s substr)"

text \<open>
  \<open>strings.Replace(s, old, new, 1)\<close>: the first occurrence of \<open>old\<close> in \<open>s\<close> is replaced by
  \<open>new\<close>; without an occurrence \<open>s\<close> is returned as it is. An empty \<open>old\<close> matches at the
  start of the string.
\<close>

fun strings_Replace1 :: "string \<Rightarrow> string \<Rightarrow> string \<Rightarrow> string" where
  "strings_Replace1 [] old new = (if old = [] then new else [])"
| "strings_Replace1 (c # s) old new =
     (if prefix old (c # s) then new @ drop (length old) (c # s)
      else c # strings_Replace1 s old new)"

definition strings_HasSuffix :: "string \<Rightarrow> string \<Rightarrow> bool" where
  "strings_HasSuffix s suf = suffix suf s"

section \<open>Errors and progress events\<close>

text \<open>
  Errors of the operating system and of the standard library are opaque messages. The
  errors the package builds itself (\<open>fmt.Errorf\<close> with a fixed prefix, wrapping a cause)
  are one constructor per prefix.
\<close>

datatype error =
    OsError string
  | EOF
  | StdoutPipeFailed error
  | StderrPipeFailed error
  | StartFailed error
  | StdoutScanError error
  | StderrScanError error
  | CommandFailed error "error option"
  | EnsureFailed error
  | CreateOutputDirFailed error
  | VideoDownloadFailed error
  | AudioFetchFailed error
  | VideoFileNotFound
  | AudioFileNotFound
  | ConversionFailed error
  | BadStatus string
  | NotFoundInArchive

text \<open>
  \<open>DownloadProgress\<close> as the struct declares it: two \<open>int64\<close> counters, a \<open>float64\<close>
  percentage (only the constants 0 and 100 are ever stored, both exact) and the stage label.
\<close>

record DownloadProgress =
  BytesDownloaded :: "64 word"
  TotalBytes :: "64 word"
  Percentage :: real
  Stage :: string

text \<open>
  A \<open>ProgressCallback\<close> is either \<open>nil\<close> or a function the caller owns. The model keeps
  whether it is non-nil and returns, in call order, the events it is called with.
\<close>

type_synonym ProgressCallback = bool

section \<open>The subprocess pipeline\<close>

text \<open>
  What one run of an external command shows to \<open>streamCommand\<close>: the outcome of creating
  the two pipes and of starting the process, the lines \<open>bufio.Scanner\<close> yields on standard
  output before \<open>Scan\<close> returns false, what \<open>scanner.Err()\<close> is on each stream afterwards,
  which of the two drain goroutines reaches the mutex first, and the result of \<open>cmd.Wait\<close>
  (an error for a non-zero exit or an expired deadline).
\<close>

record proc_run =
  stdout_pipe_err :: "error option"
  stderr_pipe_err :: "error option"
  start_err :: "error option"
  stdout_lines :: "string list"
  stdout_scan_err :: "error option"
  stderr_scan_err :: "error option"
  stdout_done_first :: bool
  wait_err :: "error option"

text \<open>The body of the standard-output goroutine: one iteration per scanned line.\<close>

fun drain_stdout :: "ProgressCallback \<Rightarrow> string \<Rightarrow> string list \<Rightarrow> DownloadProgress list" where
  "drain_stdout progressCb stage [] = []"
| "drain_stdout progressCb stage (line # rest) =
     (if progressCb then
        (if strings_Contains line ''%'' \<or> strings_Contains line ''ETA''
         then [\<lparr>BytesDownloaded = 0, TotalBytes = 0, Percentage = 0, Stage = stage\<rparr>]
         else [])
      else [])
     @ drain_stdout progressCb stage rest"

text \<open>
  After its loop each goroutine stores its scan error in \<open>errOut\<close>, under the mutex, when
  the error is neither \<open>nil\<close> nor \<open>io.EOF\<close> and \<open>errOut\<close> is still \<open>nil\<close>.
\<close>

definition record_scan_err :: "(error \<Rightarrow> error) \<Rightarrow> error option \<Rightarrow> error option \<Rightarrow> error option" where
  "record_scan_err wrap scan_err errOut =
     (case scan_err of
        None \<Rightarrow> errOut
      | Some e \<Rightarrow> if e \<noteq> EOF then (if errOut = None then Some (wrap e) else errOut) else errOut)"

definition drain_errOut :: "proc_run \<Rightarrow> error option" where
  "drain_errOut run =
     (if stdout_done_first run
      then record_scan_err StderrScanError (stderr_scan_err run)
             (record_scan_err StdoutScanError (stdout_scan_err run) None)
      else record_scan_err StdoutScanError (stdout_scan_err run)
             (record_scan_err StderrScanError (stderr_scan_err run) None))"

text \<open>
  \<open>streamCommand\<close> on a run: the returned error and the events the observer received.
  Nothing is scanned when a pipe cannot be created or the process does not start.
\<close>

definition streamCommand :: "proc_run \<Rightarrow> ProgressCallback \<Rightarrow> string \<Rightarrow> error option \<times> DownloadProgress list" where
  "streamCommand run progressCb stage =
     (case stdout_pipe_err run of
        Some e \<Rightarrow> (Some (StdoutPipeFailed e), [])
      | None \<Rightarrow>
     (case stderr_pipe_err run of
        Some e \<Rightarrow> (Some (StderrPipeFailed e), [])
      | None \<Rightarrow>
     (case start_err run of
        Some e \<Rightarrow> (Some (StartFailed e), [])
      | None \<Rightarrow>
        (let events = drain_stdout progressCb stage (stdout_lines run);
             errOut = drain_errOut run
         in case wait_err run of
              Some e \<Rightarrow> (Some (CommandFailed e errOut), events)
            | None \<Rightarrow> (errOut, events)))))"

text \<open>Whether the process of a run was launched at all.\<close>

definition launched :: "proc_run \<Rightarrow> bool" where
  "launched run =
     (stdout_pipe_err run = None \<and> stderr_pipe_err run = None \<and> start_err run = None)"

section \<open>Operating system, standard library and process state\<close>

text \<open>
  A file: whether it is a directory, its mode bits as \<open>os.Stat\<close> reports them
  (\<open>os.FileMode\<close> is a \<open>uint32\<close>) and its bytes. The file system maps paths to files; the
  empty path never names a file.
\<close>

record file_info =
  IsDir :: bool
  Mode :: "32 word"
  Data :: string

type_synonym files = "string \<Rightarrow> file_info option"

definition os_Stat :: "files \<Rightarrow> string \<Rightarrow> file_info option" where
  "os_Stat fls path = (if path = [] then None else fls path)"

text \<open>\<open>os.Remove\<close> of a path; its error is ignored wherever the package calls it.\<close>

definition os_Remove :: "string \<Rightarrow> files \<Rightarrow> files" where
  "os_Remove path fls = fls(path := None)"

text \<open>
  Everything the package consumes from outside itself, as functions the model is
  parametric in: environment variables, the home directory, the path functions of
  \<open>path/filepath\<close>, \<open>strings.ToLower\<close>, \<open>exec.LookPath\<close>, directory creation, the write
  of the marker file, the two installer entry points of package \<open>installer\<close> (their
  outcome depends on the network), and what running an external command with given
  arguments does: the run \<open>streamCommand\<close> observes and the files afterwards. For the
  installer package: \<open>runtime.GOOS\<close>, the process umask, and when creating, writing,
  copying to or changing the mode of a path fails (\<open>io.Copy\<close> fails after some bytes).
\<close>

record sys =
  os_Getenv :: "string \<Rightarrow> string"
  os_UserHomeDir :: "error + string"
  filepath_Join :: "string list \<Rightarrow> string"
  filepath_IsAbs :: "string \<Rightarrow> bool"
  filepath_Separator :: char
  filepath_Abs :: "string \<Rightarrow> error + string"
  strings_ToLower :: "string \<Rightarrow> string"
  exec_LookPath :: "files \<Rightarrow> string \<Rightarrow> bool"
  os_MkdirAll :: "string \<Rightarrow> files \<Rightarrow> error option \<times> files"
  os_WriteFile :: "string \<Rightarrow> files \<Rightarrow> files"
  installer_InstallYTDLP :: "files \<Rightarrow> error option \<times> files"
  installer_InstallFFMPEG :: "files \<Rightarrow> error option \<times> files"
  exec_Command :: "string \<Rightarrow> string list \<Rightarrow> files \<Rightarrow> proc_run \<times> files"
  runtime_GOOS :: string
  umask :: "32 word"
  os_Create_err :: "string \<Rightarrow> error option"
  os_Write_err :: "string \<Rightarrow> nat \<Rightarrow> error option"
  io_Copy_fail :: "string \<Rightarrow> (nat \<times> error) option"
  os_Chmod_err :: "string \<Rightarrow> error option"

text \<open>
  What the package does to the outside, in order: lines on standard error (one
  constructor per block of \<open>Fprintln\<close> calls), calls of the two installers, commands
  handed to \<open>streamCommand\<close> (stage label, binary, arguments), directories created, files
  removed. \<open>DecisionEntered\<close> is a ghost mark set when a caller leaves the critical
  section of \<open>ensureBinariesInstalled\<close> with the latch freshly set.
\<close>

datatype message =
    MsgBinariesNotFound
  | MsgFirstTimeSetup
  | MsgInstalling string
  | MsgInstallWarning string error
  | MsgInstalled string
  | MsgSetupComplete

datatype action =
    DecisionEntered
  | Stderr message
  | InstallYTDLPCalled
  | InstallFFMPEGCalled
  | Ran string string "string list"
  | MadeDir string
  | Removed string

text \<open>
  The package-level variables (\<open>installAttempted\<close>, \<open>YTDLPPath\<close>, \<open>FFMPEGPath\<close>) together
  with the file system and the actions performed so far.
\<close>

record world =
  fs :: files
  installAttempted :: bool
  YTDLPPath :: string
  FFMPEGPath :: string
  trace :: "action list"

definition act :: "action \<Rightarrow> world \<Rightarrow> world" where
  "act a w = w\<lparr>trace := trace w @ [a]\<rparr>"

section \<open>Locating binaries\<close>

text \<open>The loop of \<open>tryGetLocalBinary\<close> over its candidate paths.\<close>

fun first_candidate :: "files \<Rightarrow> string list \<Rightarrow> string \<Rightarrow> string" where
  "first_candidate fls [] name = name"
| "first_candidate fls (path # rest) name =
     (if os_Stat fls path \<noteq> None then path else first_candidate fls rest name)"

definition tryGetLocalBinary :: "sys \<Rightarrow> files \<Rightarrow> string \<Rightarrow> string" where
  "tryGetLocalBinary S fls name =
     (case os_UserHomeDir S of
        Inl e \<Rightarrow> name
      | Inr homeDir \<Rightarrow>
          (let binDir = filepath_Join S [homeDir, ''.gostreampuller'', ''bin''];
               candidates =
                 (if strings_Contains (strings_ToLower S (os_Getenv S ''OS'')) ''windows''
                  then [filepath_Join S [binDir, name @ ''.exe''], filepath_Join S [binDir, name]]
                  else [filepath_Join S [binDir, name]])
           in first_candidate fls candidates name))"

definition checkBinaryExists :: "sys \<Rightarrow> files \<Rightarrow> string \<Rightarrow> bool" where
  "checkBinaryExists S fls path =
     (if \<not> filepath_IsAbs S path \<and> \<not> strings_Contains path [filepath_Separator S]
      then exec_LookPath S fls path
      else
        (case os_Stat fls path of
           None \<Rightarrow> False
         | Some info \<Rightarrow>
             if IsDir info then False
             else if and (Mode info) 73 \<noteq> 0 then True
             else if strings_HasSuffix (strings_ToLower S path) ''.exe'' then True
             else False))"

definition wasInstalledViaCLI :: "sys \<Rightarrow> files \<Rightarrow> bool" where
  "wasInstalledViaCLI S fls =
     (case os_UserHomeDir S of
        Inl e \<Rightarrow> False
      | Inr homeDir \<Rightarrow>
          os_Stat fls (filepath_Join S [homeDir, ''.gostreampuller'', ''.cli_installed'']) \<noteq> None)"

section \<open>The installation coordinator\<close>

definition createAutoInstallMarker :: "sys \<Rightarrow> world \<Rightarrow> world" where
  "createAutoInstallMarker S w =
     (case os_UserHomeDir S of
        Inl e \<Rightarrow> w
      | Inr homeDir \<Rightarrow>
          (let configDir = filepath_Join S [homeDir, ''.gostreampuller''];
               markerFile = filepath_Join S [configDir, ''.auto_installed'']
           in w\<lparr>fs := os_WriteFile S markerFile (fs w)\<rparr>))"

text \<open>
  The two install blocks of \<open>autoInstallBinaries\<close>: announce, call the installer, then
  either warn or rebind the tool's path to the local binary.
\<close>

definition install_ytdlp_block :: "sys \<Rightarrow> world \<Rightarrow> world" where
  "install_ytdlp_block S w =
     (let w1 = act InstallYTDLPCalled (act (Stderr (MsgInstalling ''yt-dlp'')) w);
          r = installer_InstallYTDLP S (fs w1);
          w2 = w1\<lparr>fs := snd r\<rparr>
      in case fst r of
           Some e \<Rightarrow> act (Stderr (MsgInstallWarning ''yt-dlp'' e)) w2
         | None \<Rightarrow> (act (Stderr (MsgInstalled ''yt-dlp'')) w2)
                     \<lparr>YTDLPPath := tryGetLocalBinary S (fs w2) ''yt-dlp''\<rparr>)"

definition install_ffmpeg_block :: "sys \<Rightarrow> world \<Rightarrow> world" where
  "install_ffmpeg_block S w =
     (let w1 = act InstallFFMPEGCalled (act (Stderr (MsgInstalling ''ffmpeg'')) w);
          r = installer_InstallFFMPEG S (fs w1);
          w2 = w1\<lparr>fs := snd r\<rparr>
      in case fst r of
           Some e \<Rightarrow> act (Stderr (MsgInstallWarning ''ffmpeg'' e)) w2
         | None \<Rightarrow> (act (Stderr (MsgInstalled ''ffmpeg'')) w2)
                     \<lparr>FFMPEGPath := tryGetLocalBinary S (fs w2) ''ffmpeg''\<rparr>)"

definition autoInstallBinaries :: "sys \<Rightarrow> bool \<Rightarrow> bool \<Rightarrow> world \<Rightarrow> error option \<times> world" where
  "autoInstallBinaries S ytdlpExists ffmpegExists w =
     (let w1 = (if \<not> ytdlpExists \<or> \<not> ffmpegExists then act (Stderr MsgFirstTimeSetup) w else w);
          w2 = (if \<not> ytdlpExists then install_ytdlp_block S w1 else w1);
          w3 = (if \<not> ffmpegExists then install_ffmpeg_block S w2 else w2);
          w4 = (if \<not> ytdlpExists \<or> \<not> ffmpegExists
                then createAutoInstallMarker S (act (Stderr MsgSetupComplete) w3) else w3)
      in (None, w4))"

text \<open>
  \<open>ensureBinariesInstalled\<close> in its two parts. \<open>ensure_latch\<close> is the critical section
  between \<open>installMutex.Lock()\<close> and \<open>Unlock()\<close>: it tells whether the caller goes on and
  sets the latch. \<open>ensure_decide\<close> is everything after the unlock.
\<close>

definition ensure_latch :: "world \<Rightarrow> bool \<times> world" where
  "ensure_latch w =
     (if installAttempted w then (False, w)
      else (True, act DecisionEntered (w\<lparr>installAttempted := True\<rparr>)))"

definition ensure_decide :: "sys \<Rightarrow> world \<Rightarrow> error option \<times> world" where
  "ensure_decide S w =
     (if os_Getenv S ''GOSTREAMPULLER_NO_AUTO_INSTALL'' = ''1'' then (None, w)
      else
        (let ytdlpExists = checkBinaryExists S (fs w) (YTDLPPath w);
             ffmpegExists = checkBinaryExists S (fs w) (FFMPEGPath w)
         in if ytdlpExists \<and> ffmpegExists then (None, w)
            else if checkBinaryExists S (fs w) ''yt-dlp'' \<and> checkBinaryExists S (fs w) ''ffmpeg''
            then (None, w)
            else if wasInstalledViaCLI S (fs w) then (None, act (Stderr MsgBinariesNotFound) w)
            else autoInstallBinaries S ytdlpExists ffmpegExists w))"

definition ensureBinariesInstalled :: "sys \<Rightarrow> world \<Rightarrow> error option \<times> world" where
  "ensureBinariesInstalled S w =
     (case ensure_latch w of
        (False, w1) \<Rightarrow> (None, w1)
      | (True, w1) \<Rightarrow> ensure_decide S w1)"

text \<open>
  The package variables when the process starts: \<open>installAttempted\<close> has its zero value
  and \<open>init()\<close> binds both tool paths.
\<close>

definition process_start :: "sys \<Rightarrow> files \<Rightarrow> world" where
  "process_start S fls =
     \<lparr>fs = fls, installAttempted = False,
      YTDLPPath = tryGetLocalBinary S fls ''yt-dlp'',
      FFMPEGPath = tryGetLocalBinary S fls ''ffmpeg'',
      trace = []\<rparr>"

section \<open>Concurrent callers of the coordinator\<close>

text \<open>
  Goroutines call \<open>ensureBinariesInstalled\<close> in any interleaving. The mutex makes
  \<open>ensure_latch\<close> atomic; a caller that went on runs \<open>ensure_decide\<close> later, while other
  goroutines may call in between, rebind the tool paths (\<open>SetYTDLPPath\<close>,
  \<open>SetFFMPEGPath\<close>) or change files. A schedule lists these steps in the order they take
  effect; a step that does not fit the caller's state (finishing a decision it never
  entered, calling while inside) changes nothing.
\<close>

datatype sched_step =
    Call nat
  | Finish nat
  | SetYTDLP string
  | SetFFMPEG string
  | FilesChange files

record conf =
  W :: world
  deciding :: "nat set"
  returned :: "(nat \<times> error option) list"

definition sched_step :: "sys \<Rightarrow> sched_step \<Rightarrow> conf \<Rightarrow> conf" where
  "sched_step S st c =
     (case st of
        Call i \<Rightarrow>
          if i \<in> deciding c then c
          else (case ensure_latch (W c) of
                  (False, w1) \<Rightarrow> c\<lparr>W := w1, returned := returned c @ [(i, None)]\<rparr>
                | (True, w1) \<Rightarrow> c\<lparr>W := w1, deciding := insert i (deciding c)\<rparr>)
      | Finish i \<Rightarrow>
          if i \<in> deciding c
          then (let r = ensure_decide S (W c)
                in c\<lparr>W := snd r, deciding := deciding c - {i},
                     returned := returned c @ [(i, fst r)]\<rparr>)
          else c
      | SetYTDLP p \<Rightarrow> c\<lparr>W := (W c)\<lparr>YTDLPPath := p\<rparr>\<rparr>
      | SetFFMPEG p \<Rightarrow> c\<lparr>W := (W c)\<lparr>FFMPEGPath := p\<rparr>\<rparr>
      | FilesChange fls \<Rightarrow> c\<lparr>W := (W c)\<lparr>fs := fls\<rparr>\<rparr>)"

definition run_schedule :: "sys \<Rightarrow> sched_step list \<Rightarrow> conf \<Rightarrow> conf" where
  "run_schedule S sched c = foldl (\<lambda>c st. sched_step S st c) c sched"

definition start_conf :: "sys \<Rightarrow> files \<Rightarrow> conf" where
  "start_conf S fls = \<lparr>W = process_start S fls, deciding = {}, returned = []\<rparr>"

section \<open>The media pipeline\<close>

text \<open>\<open>fmt.Sprintf("%d", n)\<close> for the time stamp in the file name.\<close>

fun decimal :: "nat \<Rightarrow> string" where
  "decimal n =
     (if n < 10 then [''0123456789'' ! n]
      else decimal (n div 10) @ [''0123456789'' ! (n mod 10)])"

declare decimal.simps [simp del]

definition sprint_d :: "int \<Rightarrow> string" where
  "sprint_d i = (if i < 0 then CHR ''-'' # decimal (nat (- i)) else decimal (nat i))"

text \<open>
  What a pipeline call gives back: the returned pair as a sum, the events its observer
  received, and the process state afterwards.
\<close>

record outcome =
  result :: "error + string"
  events :: "DownloadProgress list"
  after :: world

text \<open>
  Running a prepared command through \<open>streamCommand\<close>: the command is recorded with its
  stage label, the process changes files only when it was launched.
\<close>

definition run_command ::
    "sys \<Rightarrow> string \<Rightarrow> string list \<Rightarrow> ProgressCallback \<Rightarrow> string \<Rightarrow> world
       \<Rightarrow> error option \<times> DownloadProgress list \<times> world" where
  "run_command S path args progressCb stage w =
     (let r = exec_Command S path args (fs w);
          w1 = act (Ran stage path args) w;
          w2 = (if launched (fst r) then w1\<lparr>fs := snd r\<rparr> else w1);
          sc = streamCommand (fst r) progressCb stage
      in (fst sc, snd sc, w2))"

text \<open>
  The probing loop shared in shape by both pipelines: the first candidate that
  \<open>os.Stat\<close> finds is kept and the loop left; the variable starts as the empty string.
\<close>

fun probe_extensions :: "files \<Rightarrow> string \<Rightarrow> string list \<Rightarrow> string" where
  "probe_extensions fls temp [] = []"
| "probe_extensions fls temp (ext # rest) =
     (let candidate = strings_Replace1 temp ''%(ext)s'' ext
      in if os_Stat fls candidate \<noteq> None then candidate
         else probe_extensions fls temp rest)"

definition video_possibleExtensions :: "string list" where
  "video_possibleExtensions = [''mkv'', ''mp4'', ''webm'', ''avi'', ''mov'', ''flv'']"

definition audio_possibleExtensions :: "string list" where
  "audio_possibleExtensions = [''webm'', ''m4a'', ''opus'', ''ogg'', ''mp3'', ''aac'']"

definition completed_event :: "DownloadProgress" where
  "completed_event =
     \<lparr>BytesDownloaded = 0, TotalBytes = 0, Percentage = 100, Stage = ''Completed''\<rparr>"

definition stage_event :: "string \<Rightarrow> DownloadProgress" where
  "stage_event stage = \<lparr>BytesDownloaded = 0, TotalBytes = 0, Percentage = 0, Stage = stage\<rparr>"

definition notify :: "ProgressCallback \<Rightarrow> DownloadProgress \<Rightarrow> DownloadProgress list" where
  "notify progressCb ev = (if progressCb then [ev] else [])"

text \<open>
  \<open>DownloadVideoToDirWithProgress\<close> after the fetch, in two parts. \<open>video_after_fetch\<close>
  is the discovery of the downloaded file: \<open>temp\<close> is the output template, \<open>format\<close> the
  format after defaults, \<open>evs\<close> the events so far and \<open>w\<close> the state the fetch left.
  \<open>video_finish\<close> is the rest of the function for the file found. The deferred
  \<open>os.Remove(downloaded)\<close> runs when the function returns, after \<open>filepath.Abs\<close>.
\<close>

definition video_ffmpeg_args :: "string \<Rightarrow> string \<Rightarrow> string list" where
  "video_ffmpeg_args downloaded finalOutput =
     [''-i'', downloaded, ''-c'', ''copy'', ''-movflags'', ''+faststart'',
      ''-max_muxing_queue_size'', ''1024'', ''-y'', finalOutput]"

definition video_finish ::
    "sys \<Rightarrow> string \<Rightarrow> string \<Rightarrow> ProgressCallback \<Rightarrow> DownloadProgress list \<Rightarrow> world \<Rightarrow> string
       \<Rightarrow> outcome" where
  "video_finish S temp format progressCb evs w downloaded =
     (let finalOutput = strings_Replace1 temp ''%(ext)s'' format
      in if downloaded \<noteq> finalOutput then
           (let evs1 = evs @ notify progressCb (stage_event ''Converting video format'');
                c = run_command S (FFMPEGPath w) (video_ffmpeg_args downloaded finalOutput)
                      progressCb ''converting'' w;
                evs2 = evs1 @ fst (snd c);
                w1 = snd (snd c)
            in case fst c of
                 Some e \<Rightarrow> \<lparr>result = Inl (ConversionFailed e), events = evs2, after = w1\<rparr>
               | None \<Rightarrow>
                   \<lparr>result = filepath_Abs S finalOutput,
                    events = evs2 @ notify progressCb completed_event,
                    after = act (Removed downloaded) (w1\<lparr>fs := os_Remove downloaded (fs w1)\<rparr>)\<rparr>)
         else
           \<lparr>result = filepath_Abs S downloaded,
            events = evs @ notify progressCb completed_event,
            after = w\<rparr>)"

definition video_after_fetch ::
    "sys \<Rightarrow> string \<Rightarrow> string \<Rightarrow> ProgressCallback \<Rightarrow> DownloadProgress list \<Rightarrow> world \<Rightarrow> outcome" where
  "video_after_fetch S temp format progressCb evs w =
     (let downloaded = probe_extensions (fs w) temp video_possibleExtensions
      in if downloaded = [] then \<lparr>result = Inl VideoFileNotFound, events = evs, after = w\<rparr>
         else video_finish S temp format progressCb evs w downloaded)"

text \<open>The format selector and the arguments of the fetch command for a video.\<close>

definition video_selector :: "string \<Rightarrow> string \<Rightarrow> string" where
  "video_selector resolution codec =
     ''bestvideo[height<='' @ resolution @ ''][vcodec*='' @ codec @ '']+bestaudio/best''"

definition video_fetch_args :: "string \<Rightarrow> string \<Rightarrow> string \<Rightarrow> string list" where
  "video_fetch_args selector temp url =
     [''-f'', selector, ''-o'', temp, ''--no-part'', ''--concurrent-fragments'', ''3'',
      ''--buffer-size'', ''32K'', ''--retries'', ''10'', ''--fragment-retries'', ''10'', url]"

text \<open>
  \<open>DownloadVideoToDirWithProgress\<close> up to and including the fetch: either the function
  returns early (\<open>Inl\<close>), or the fetch succeeded and the function goes on with the
  output template, the format after defaults, the events so far and the state reached.
\<close>

definition video_fetch_stage ::
    "sys \<Rightarrow> int \<Rightarrow> string \<Rightarrow> string \<Rightarrow> string \<Rightarrow> string \<Rightarrow> string \<Rightarrow> ProgressCallback
       \<Rightarrow> world \<Rightarrow> outcome + string \<times> string \<times> DownloadProgress list \<times> world" where
  "video_fetch_stage S now url format0 resolution0 codec0 outputDir progressCb w0 =
     (let en = ensureBinariesInstalled S w0; w = snd en
      in case fst en of
           Some e \<Rightarrow> Inl \<lparr>result = Inl (EnsureFailed e), events = [], after = w\<rparr>
         | None \<Rightarrow>
     (let format = (if format0 = [] then ''mp4'' else format0);
          resolution = (if resolution0 = [] then ''720'' else resolution0);
          codec = (if codec0 = [] then ''avc1'' else codec0);
          mk = (if outputDir \<noteq> [] then os_MkdirAll S outputDir (fs w) else (None, fs w));
          w1 = (if outputDir \<noteq> [] then act (MadeDir outputDir) (w\<lparr>fs := snd mk\<rparr>) else w)
      in case fst mk of
           Some e \<Rightarrow> Inl \<lparr>result = Inl (CreateOutputDirFailed e), events = [], after = w1\<rparr>
         | None \<Rightarrow>
     (let filename = ''video_'' @ sprint_d now @ ''.%(ext)s'';
          temp = (if outputDir \<noteq> [] then filepath_Join S [outputDir, filename] else filename);
          selector = video_selector resolution codec;
          evs = notify progressCb (stage_event ''Downloading video'');
          c = run_command S (YTDLPPath w1) (video_fetch_args selector temp url)
                progressCb ''downloading'' w1;
          evs1 = evs @ fst (snd c);
          w2 = snd (snd c)
      in case fst c of
           Some e \<Rightarrow> Inl \<lparr>result = Inl (VideoDownloadFailed e), events = evs1, after = w2\<rparr>
         | None \<Rightarrow> Inr (temp, format, evs1, w2))))"

definition DownloadVideoToDirWithProgress ::
    "sys \<Rightarrow> int \<Rightarrow> string \<Rightarrow> string \<Rightarrow> string \<Rightarrow> string \<Rightarrow> string \<Rightarrow> ProgressCallback
       \<Rightarrow> world \<Rightarrow> outcome" where
  "DownloadVideoToDirWithProgress S now url format0 resolution0 codec0 outputDir progressCb w0 =
     (case video_fetch_stage S now url format0 resolution0 codec0 outputDir progressCb w0 of
        Inl out \<Rightarrow> out
      | Inr (temp, format, evs, w) \<Rightarrow> video_after_fetch S temp format progressCb evs w)"

text \<open>
  \<open>DownloadAudioToDirWithProgress\<close> after the fetch, in the same two parts. This
  function does not compare the file found with the output path: the conversion always
  runs.
\<close>

definition audio_ffmpeg_args :: "string \<Rightarrow> string \<Rightarrow> string \<Rightarrow> string \<Rightarrow> string list" where
  "audio_ffmpeg_args original codec bitrate output =
     [''-i'', original, ''-vn'', ''-acodec'', codec, ''-ab'', bitrate,
      ''-max_muxing_queue_size'', ''1024'', ''-y'', output]"

definition audio_finish ::
    "sys \<Rightarrow> string \<Rightarrow> string \<Rightarrow> string \<Rightarrow> string \<Rightarrow> ProgressCallback \<Rightarrow> DownloadProgress list
       \<Rightarrow> world \<Rightarrow> string \<Rightarrow> outcome" where
  "audio_finish S temp outputFormat codec bitrate progressCb evs w original =
     (let output = strings_Replace1 temp ''%(ext)s'' outputFormat;
          evs1 = evs @ notify progressCb (stage_event ''Converting audio format'');
          c = run_command S (FFMPEGPath w) (audio_ffmpeg_args original codec bitrate output)
                progressCb ''converting'' w;
          evs2 = evs1 @ fst (snd c);
          w1 = snd (snd c)
      in case fst c of
           Some e \<Rightarrow> \<lparr>result = Inl (ConversionFailed e), events = evs2, after = w1\<rparr>
         | None \<Rightarrow>
             \<lparr>result = filepath_Abs S output,
              events = evs2 @ notify progressCb completed_event,
              after = act (Removed original) (w1\<lparr>fs := os_Remove original (fs w1)\<rparr>)\<rparr>)"

definition audio_after_fetch ::
    "sys \<Rightarrow> string \<Rightarrow> string \<Rightarrow> string \<Rightarrow> string \<Rightarrow> ProgressCallback \<Rightarrow> DownloadProgress list
       \<Rightarrow> world \<Rightarrow> outcome" where
  "audio_after_fetch S temp outputFormat codec bitrate progressCb evs w =
     (let original = probe_extensions (fs w) temp audio_possibleExtensions
      in if original = [] then \<lparr>result = Inl AudioFileNotFound, events = evs, after = w\<rparr>
         else audio_finish S temp outputFormat codec bitrate progressCb evs w original)"

text \<open>The arguments of the fetch command for audio.\<close>

definition audio_fetch_args :: "string \<Rightarrow> string \<Rightarrow> string list" where
  "audio_fetch_args temp url =
     [''-f'', ''bestaudio'', ''-o'', temp, ''--no-part'', ''--concurrent-fragments'', ''3'',
      ''--buffer-size'', ''32K'', ''--retries'', ''10'', ''--fragment-retries'', ''10'', url]"

definition audio_fetch_stage ::
    "sys \<Rightarrow> int \<Rightarrow> string \<Rightarrow> string \<Rightarrow> string \<Rightarrow> string \<Rightarrow> string \<Rightarrow> ProgressCallback
       \<Rightarrow> world
       \<Rightarrow> outcome + string \<times> string \<times> string \<times> string \<times> DownloadProgress list \<times> world" where
  "audio_fetch_stage S now url outputFormat0 codec0 bitrate0 outputDir progressCb w0 =
     (let en = ensureBinariesInstalled S w0; w = snd en
      in case fst en of
           Some e \<Rightarrow> Inl \<lparr>result = Inl (EnsureFailed e), events = [], after = w\<rparr>
         | None \<Rightarrow>
     (let outputFormat = (if outputFormat0 = [] then ''mp3'' else outputFormat0);
          codec = (if codec0 = [] then ''libmp3lame'' else codec0);
          bitrate = (if bitrate0 = [] then ''128k'' else bitrate0);
          mk = (if outputDir \<noteq> [] then os_MkdirAll S outputDir (fs w) else (None, fs w));
          w1 = (if outputDir \<noteq> [] then act (MadeDir outputDir) (w\<lparr>fs := snd mk\<rparr>) else w)
      in case fst mk of
           Some e \<Rightarrow> Inl \<lparr>result = Inl (CreateOutputDirFailed e), events = [], after = w1\<rparr>
         | None \<Rightarrow>
     (let filename = ''audio_'' @ sprint_d now @ ''.%(ext)s'';
          temp = (if outputDir \<noteq> [] then filepath_Join S [outputDir, filename] else filename);
          evs = notify progressCb (stage_event ''Downloading audio'');
          c = run_command S (YTDLPPath w1) (audio_fetch_args temp url)
                progressCb ''downloading'' w1;
          evs1 = evs @ fst (snd c);
          w2 = snd (snd c)
      in case fst c of
           Some e \<Rightarrow> Inl \<lparr>result = Inl (AudioFetchFailed e), events = evs1, after = w2\<rparr>
         | None \<Rightarrow> Inr (temp, outputFormat, codec, bitrate, evs1, w2))))"

definition DownloadAudioToDirWithProgress ::
    "sys \<Rightarrow> int \<Rightarrow> string \<Rightarrow> string \<Rightarrow> string \<Rightarrow> string \<Rightarrow> string \<Rightarrow> ProgressCallback
       \<Rightarrow> world \<Rightarrow> outcome" where
  "DownloadAudioToDirWithProgress S now url outputFormat0 codec0 bitrate0 outputDir progressCb w0 =
     (case audio_fetch_stage S now url outputFormat0 codec0 bitrate0 outputDir progressCb w0 of
        Inl out \<Rightarrow> out
      | Inr (temp, outputFormat, codec, bitrate, evs, w) \<Rightarrow>
          audio_after_fetch S temp outputFormat codec bitrate progressCb evs w)"

section \<open>The installer package: files on disk\<close>

text \<open>
  \<open>os.OpenFile(path, O_WRONLY|O_CREATE|O_TRUNC, perm)\<close>: an existing file is truncated
  and keeps its mode, a new one gets the permission bits of \<open>perm\<close> less the umask; a
  directory cannot be opened for writing. \<open>os.Create\<close> is the same call with \<open>perm = 0666\<close>.
\<close>

definition os_OpenFile_trunc :: "sys \<Rightarrow> string \<Rightarrow> 32 word \<Rightarrow> files \<Rightarrow> error + files" where
  "os_OpenFile_trunc S path perm fls =
     (case os_Create_err S path of
        Some e \<Rightarrow> Inl e
      | None \<Rightarrow>
          (case os_Stat fls path of
             None \<Rightarrow> Inr (fls(path \<mapsto> \<lparr>IsDir = False, Mode = and (and perm 511) (not (umask S)), Data = []\<rparr>))
           | Some info \<Rightarrow>
               if IsDir info then Inl (OsError ''is a directory'')
               else Inr (fls(path \<mapsto> info\<lparr>Data := []\<rparr>))))"

definition os_Create :: "sys \<Rightarrow> string \<Rightarrow> files \<Rightarrow> error + files" where
  "os_Create S path fls = os_OpenFile_trunc S path 438 fls"

definition append_data :: "string \<Rightarrow> string \<Rightarrow> files \<Rightarrow> files" where
  "append_data path bytes fls =
     (case fls path of
        None \<Rightarrow> fls
      | Some info \<Rightarrow> fls(path \<mapsto> info\<lparr>Data := Data info @ bytes\<rparr>))"

text \<open>\<open>io.Copy(outFile, src)\<close> onto the open file at \<open>path\<close>.\<close>

definition io_Copy :: "sys \<Rightarrow> string \<Rightarrow> string \<Rightarrow> files \<Rightarrow> error option \<times> files" where
  "io_Copy S path bytes fls =
     (case io_Copy_fail S path of
        Some (k, e) \<Rightarrow> (Some e, append_data path (take k bytes) fls)
      | None \<Rightarrow> (None, append_data path bytes fls))"

definition os_Chmod :: "sys \<Rightarrow> string \<Rightarrow> 32 word \<Rightarrow> files \<Rightarrow> error option \<times> files" where
  "os_Chmod S path mode fls =
     (case os_Chmod_err S path of
        Some e \<Rightarrow> (Some e, fls)
      | None \<Rightarrow>
          (case fls path of
             None \<Rightarrow> (Some (OsError ''no such file''), fls)
           | Some info \<Rightarrow> (None, fls(path \<mapsto> info\<lparr>Mode := mode\<rparr>))))"

section \<open>The archive extractor\<close>

text \<open>
  An entry of an opened zip archive (\<open>zip.File\<close>): its name, \<open>f.Mode()\<close> (the directory
  bit \<open>os.ModeDir\<close> is bit 31, the other file-type bits are those of \<open>os.ModeType\<close>), and
  what \<open>f.Open()\<close> gives, an error or the bytes of the entry.
\<close>

record zip_entry =
  zip_Name :: string
  zip_Mode :: "32 word"
  zip_Open :: "error + string"

definition os_ModeType :: "32 word" where
  "os_ModeType = 0x8F280000"

definition zip_IsRegular :: "zip_entry \<Rightarrow> bool" where
  "zip_IsRegular f = (and (zip_Mode f) os_ModeType = 0)"

text \<open>
  The body of the \<open>if\<close> inside both extraction loops: create the destination, copy the
  bytes, change the mode when asked to.
\<close>

definition zip_extract_entry :: "sys \<Rightarrow> zip_entry \<Rightarrow> string \<Rightarrow> files \<Rightarrow> error option \<times> files" where
  "zip_extract_entry S f destPath fls =
     (case zip_Open f of
        Inl e \<Rightarrow> (Some e, fls)
      | Inr bytes \<Rightarrow>
          (case os_OpenFile_trunc S destPath (zip_Mode f) fls of
             Inl e \<Rightarrow> (Some e, fls)
           | Inr fls1 \<Rightarrow>
               (let cp = io_Copy S destPath bytes fls1
                in case fst cp of
                     Some e \<Rightarrow> (Some e, snd cp)
                   | None \<Rightarrow>
                       if runtime_GOOS S \<noteq> ''windows''
                       then (let ch = os_Chmod S destPath 493 (snd cp)
                             in case fst ch of
                                  Some e \<Rightarrow> (Some e, snd ch)
                                | None \<Rightarrow> (None, snd ch))
                       else (None, snd cp))))"

fun zip_scan :: "sys \<Rightarrow> string \<Rightarrow> string \<Rightarrow> zip_entry list \<Rightarrow> files \<Rightarrow> error option \<times> files" where
  "zip_scan S executable destDir [] fls = (Some NotFoundInArchive, fls)"
| "zip_scan S executable destDir (f # rest) fls =
     (if strings_Contains (zip_Name f) executable \<and> \<not> strings_Contains (zip_Name f) ''doc''
      then zip_extract_entry S f (filepath_Join S [destDir, executable]) fls
      else zip_scan S executable destDir rest fls)"

text \<open>
  \<open>extractFFMPEGFromZip\<close>; \<open>opened\<close> is what \<open>zip.OpenReader(zipPath)\<close> returns, an
  error or the entries \<open>r.File\<close> in archive order.
\<close>

definition extractFFMPEGFromZip :: "sys \<Rightarrow> error + zip_entry list \<Rightarrow> string \<Rightarrow> files \<Rightarrow> error option \<times> files" where
  "extractFFMPEGFromZip S opened destDir fls =
     (case opened of
        Inl e \<Rightarrow> (Some e, fls)
      | Inr entries \<Rightarrow>
          (let executable = (if runtime_GOOS S = ''windows'' then ''ffmpeg.exe'' else ''ffmpeg'')
           in zip_scan S executable destDir entries fls))"

text \<open>
  A tar stream as \<open>tar.Reader\<close> delivers it: the headers \<open>tr.Next()\<close> returns one after
  the other, each with the bytes readable until the next call, and how the stream ends:
  with \<open>io.EOF\<close> or with another error. \<open>tar.TypeReg\<close> is the byte \<open>'0'\<close>.
\<close>

record tar_entry =
  tar_Name :: string
  tar_Typeflag :: char
  tar_Data :: string

record tar_stream =
  tar_entries :: "tar_entry list"
  tar_end :: "error option"

definition tar_TypeReg :: char where
  "tar_TypeReg = CHR ''0''"

definition tar_extract_entry :: "sys \<Rightarrow> tar_entry \<Rightarrow> string \<Rightarrow> files \<Rightarrow> error option \<times> files" where
  "tar_extract_entry S header destPath fls =
     (case os_Create S destPath fls of
        Inl e \<Rightarrow> (Some e, fls)
      | Inr fls1 \<Rightarrow>
          (let cp = io_Copy S destPath (tar_Data header) fls1
           in case fst cp of
                Some e \<Rightarrow> (Some e, snd cp)
              | None \<Rightarrow>
                  (let ch = os_Chmod S destPath 493 (snd cp)
                   in case fst ch of
                        Some e \<Rightarrow> (Some e, snd ch)
                      | None \<Rightarrow> (None, snd ch))))"

fun tar_scan :: "sys \<Rightarrow> string \<Rightarrow> tar_entry list \<Rightarrow> error option \<Rightarrow> files \<Rightarrow> error option \<times> files" where
  "tar_scan S destPath [] stream_end fls =
     (case stream_end of
        None \<Rightarrow> (Some NotFoundInArchive, fls)
      | Some e \<Rightarrow> if e = EOF then (Some NotFoundInArchive, fls) else (Some e, fls))"
| "tar_scan S destPath (header # rest) stream_end fls =
     (if strings_Contains (tar_Name header) ''ffmpeg'' \<and>
         \<not> strings_Contains (tar_Name header) ''doc'' \<and>
         tar_Typeflag header = tar_TypeReg
      then tar_extract_entry S header destPath fls
      else tar_scan S destPath rest stream_end fls)"

text \<open>
  \<open>extractFFMPEGFromTar\<close>; \<open>open_err\<close> is the error of \<open>os.Open(tarPath)\<close>, \<open>gzip_err\<close>
  that of \<open>gzip.NewReader\<close> (consulted only for a path ending in \<open>.gz\<close>), \<open>stream\<close> what
  the tar reader then delivers.
\<close>

definition extractFFMPEGFromTar ::
    "sys \<Rightarrow> string \<Rightarrow> error option \<Rightarrow> error option \<Rightarrow> tar_stream \<Rightarrow> string \<Rightarrow> files
       \<Rightarrow> error option \<times> files" where
  "extractFFMPEGFromTar S tarPath open_err gzip_err stream destDir fls =
     (case open_err of
        Some e \<Rightarrow> (Some e, fls)
      | None \<Rightarrow>
          (case (if strings_HasSuffix tarPath ''.gz'' then gzip_err else None) of
             Some e \<Rightarrow> (Some e, fls)
           | None \<Rightarrow>
               (let executable = ''ffmpeg'';
                    destPath = filepath_Join S [destDir, executable]
                in tar_scan S destPath (tar_entries stream) (tar_end stream) fls)))"

section \<open>Downloading a binary\<close>

text \<open>
  One call of \<open>resp.Body.Read(buf)\<close>: the bytes placed in the buffer and the error
  returned with them. The response: status, \<open>ContentLength\<close> (an \<open>int64\<close>, \<open>-1\<close> when the
  server does not report it) and the reads of the body in order.
\<close>

record body_read =
  read_bytes :: string
  read_err :: "error option"

record http_response =
  StatusCode :: int
  Status :: string
  ContentLength :: int
  Body :: "body_read list"

text \<open>
  The \<open>float64\<close> arithmetic the progress line needs, as functions the model is
  parametric in: the conversion of an \<open>int64\<close>, division, multiplication, and the
  format verb \<open>%.1f\<close>. A \<open>float64\<close> value is kept as the real number it denotes; the
  operations round as the platform does, so \<open>float64_div F a b\<close> need not be \<open>a / b\<close>.
\<close>

record float64_ops =
  float64_of_int64 :: "int \<Rightarrow> real"
  float64_div :: "real \<Rightarrow> real \<Rightarrow> real"
  float64_mul :: "real \<Rightarrow> real \<Rightarrow> real"
  sprintf_1f :: "real \<Rightarrow> string"

text \<open>Integer division of Go: the quotient is truncated toward zero.\<close>

definition int64_quo :: "int \<Rightarrow> int \<Rightarrow> int" where
  "int64_quo a b = sgn a * sgn b * (\<bar>a\<bar> div \<bar>b\<bar>)"

text \<open>
  The line passed to \<open>progressFn\<close> in the loop,
  \<open>fmt.Sprintf("Downloading... %.1f%% (%d/%d MB)", percentage, downloaded/(1024*1024),
  total/(1024*1024))\<close>, where \<open>percentage\<close> is
  \<open>float64(downloaded) / float64(total) * 100\<close>.
\<close>

definition percentage_of :: "float64_ops \<Rightarrow> int \<Rightarrow> int \<Rightarrow> real" where
  "percentage_of F downloaded total_len =
     float64_mul F
       (float64_div F (float64_of_int64 F downloaded) (float64_of_int64 F total_len)) 100"

definition progress_message :: "float64_ops \<Rightarrow> int \<Rightarrow> int \<Rightarrow> string" where
  "progress_message F total_len downloaded =
     (let percentage = percentage_of F downloaded total_len
      in ''Downloading... '' @ sprintf_1f F percentage @ ''% (''
           @ sprint_d (int64_quo downloaded (1024 * 1024)) @ ''/''
           @ sprint_d (int64_quo total_len (1024 * 1024)) @ '' MB)'')"

text \<open>\<open>int64\<close> addition: the sum wraps into the range from \<open>-2^63\<close> to \<open>2^63 - 1\<close>.\<close>

definition int64_add :: "int \<Rightarrow> int \<Rightarrow> int" where
  "int64_add a b = (a + b + 2 ^ 63) mod 2 ^ 64 - 2 ^ 63"

text \<open>
  The \<open>for\<close> loop of \<open>downloadFile\<close>, one iteration per read. \<open>Some r\<close> is the loop left
  with the function returning \<open>r\<close>; \<open>None\<close> is the loop still running when the reads listed
  are used up.
\<close>

fun download_loop ::
    "sys \<Rightarrow> float64_ops \<Rightarrow> string \<Rightarrow> bool \<Rightarrow> int \<Rightarrow> body_read list \<Rightarrow> int \<Rightarrow> nat
       \<Rightarrow> string list \<Rightarrow> files \<Rightarrow> error option option \<times> string list \<times> files" where
  "download_loop S F path progressFn total_len [] downloaded written lines fls = (None, lines, fls)"
| "download_loop S F path progressFn total_len (rd # rest) downloaded written lines fls =
     (let n = length (read_bytes rd)
      in if n > 0 \<and> os_Write_err S path written \<noteq> None
         then (Some (os_Write_err S path written), lines, fls)
         else
           (let fls1 = (if n > 0 then append_data path (read_bytes rd) fls else fls);
                downloaded1 = (if n > 0 then int64_add downloaded (int n) else downloaded);
                written1 = (if n > 0 then written + n else written);
                lines1 =
                  (if n > 0 \<and> progressFn \<and> total_len > 0
                   then lines @ [progress_message F total_len downloaded1]
                   else lines)
            in case read_err rd of
                 Some e \<Rightarrow> if e = EOF then (Some None, lines1, fls1) else (Some (Some e), lines1, fls1)
               | None \<Rightarrow>
                   download_loop S F path progressFn total_len rest downloaded1 written1 lines1 fls1))"

text \<open>
  \<open>downloadFile\<close>; \<open>got\<close> is what \<open>http.Get(url)\<close> returns. \<open>progressFn\<close> tells whether
  the callback is non-nil, the lines it receives are returned.
\<close>

definition downloadFile ::
    "sys \<Rightarrow> float64_ops \<Rightarrow> error + http_response \<Rightarrow> string \<Rightarrow> bool \<Rightarrow> files
       \<Rightarrow> error option option \<times> string list \<times> files" where
  "downloadFile S F got path progressFn fls =
     (case got of
        Inl e \<Rightarrow> (Some (Some e), [], fls)
      | Inr resp \<Rightarrow>
          if StatusCode resp \<noteq> 200 then (Some (Some (BadStatus (Status resp))), [], fls)
          else
            (case os_Create S path fls of
               Inl e \<Rightarrow> (Some (Some e), [], fls)
             | Inr fls1 \<Rightarrow>
                 download_loop S F path progressFn (ContentLength resp) (Body resp) 0 0 [] fls1))"

section \<open>A concrete environment\<close>

text \<open>
  A Unix-like environment for running the model on concrete inputs: auto-installation
  is switched off by \<open>GOSTREAMPULLER_NO_AUTO_INSTALL=1\<close>, nothing is on the search path
  and the installers cannot reach the network; paths are joined with a slash. The fetch
  tool writes the output template (its fourth argument) with the extension \<open>ext\<close>, any
  other command writes its last argument; both exit with status 0 and print nothing.
\<close>

fun join_slash :: "string list \<Rightarrow> string" where
  "join_slash [] = []"
| "join_slash [p] = p"
| "join_slash (p # q # ps) = p @ ''/'' @ join_slash (q # ps)"

definition ok_run :: proc_run where
  "ok_run = \<lparr>stdout_pipe_err = None, stderr_pipe_err = None, start_err = None,
     stdout_lines = [], stdout_scan_err = None, stderr_scan_err = None,
     stdout_done_first = True, wait_err = None\<rparr>"

definition plain_file :: file_info where
  "plain_file = \<lparr>IsDir = False, Mode = 420, Data = []\<rparr>"

definition no_files :: files where
  "no_files = (\<lambda>path. None)"

definition fetching :: "string \<Rightarrow> sys" where
  "fetching ext =
     \<lparr>os_Getenv = (\<lambda>name. if name = ''GOSTREAMPULLER_NO_AUTO_INSTALL'' then ''1'' else []),
      os_UserHomeDir = Inr ''/home/u'',
      filepath_Join = join_slash,
      filepath_IsAbs = (\<lambda>path. prefix ''/'' path),
      filepath_Separator = CHR ''/'',
      filepath_Abs = (\<lambda>path. if prefix ''/'' path then Inr path else Inr (''/work/'' @ path)),
      strings_ToLower = (\<lambda>s. s),
      exec_LookPath = (\<lambda>fls name. False),
      os_MkdirAll = (\<lambda>path fls. (None, fls)),
      os_WriteFile = (\<lambda>path fls. fls(path \<mapsto> plain_file)),
      installer_InstallYTDLP = (\<lambda>fls. (Some (OsError ''offline''), fls)),
      installer_InstallFFMPEG = (\<lambda>fls. (Some (OsError ''offline''), fls)),
      exec_Command = (\<lambda>path args fls.
         if path = ''yt-dlp''
         then (ok_run, fls(strings_Replace1 (args ! 3) ''%(ext)s'' ext \<mapsto> plain_file))
         else (ok_run, fls(last args \<mapsto> plain_file))),
      runtime_GOOS = ''darwin'',
      umask = 18,
      os_Create_err = (\<lambda>path. None),
      os_Write_err = (\<lambda>path offset. None),
      io_Copy_fail = (\<lambda>path. None),
      os_Chmod_err = (\<lambda>path. None)\<rparr>"

text \<open>The same environment with a transcode tool that exits with status 1.\<close>

definition failing_transcode :: "string \<Rightarrow> sys" where
  "failing_transcode ext =
     (fetching ext)\<lparr>exec_Command := (\<lambda>path args fls.
         if path = ''yt-dlp''
         then (ok_run, fls(strings_Replace1 (args ! 3) ''%(ext)s'' ext \<mapsto> plain_file))
         else (ok_run\<lparr>wait_err := Some (OsError ''exit status 1'')\<rparr>, fls))\<rparr>"

text \<open>
  Binary64 arithmetic for concrete inputs: a real number is rounded to the nearest
  number with a significand of 53 bits, ties to the even significand. The exponent is
  found by doubling or halving the magnitude until it lies between \<open>2^52\<close> and \<open>2^53\<close>;
  overflow to infinity, subnormal numbers and division by zero are outside this model,
  and none of them arises from the \<open>int64\<close> operands of a progress line with a positive
  total. \<open>%.1f\<close> prints the value rounded to one decimal, ties to even, for values that
  are not negative.
\<close>

definition round_half_even :: "real \<Rightarrow> int" where
  "round_half_even x =
     (let n = \<lfloor>x\<rfloor>; r = x - of_int n
      in if r < 1 / 2 then n else if 1 / 2 < r then n + 1 else if even n then n else n + 1)"

fun scale_significand :: "nat \<Rightarrow> real \<Rightarrow> int \<Rightarrow> real \<times> int" where
  "scale_significand fuel m e =
     (if fuel = 0 then (m, e)
      else if m < 2 ^ 52 then scale_significand (fuel - 1) (m * 2) (e - 1)
      else if 2 ^ 53 \<le> m then scale_significand (fuel - 1) (m / 2) (e + 1)
      else (m, e))"

declare scale_significand.simps [simp del]

definition round_binary64 :: "real \<Rightarrow> real" where
  "round_binary64 x =
     (if x = 0 then 0
      else
        (let me = scale_significand 1100 \<bar>x\<bar> 0;
             significand = of_int (round_half_even (fst me));
             v = (if 0 \<le> snd me then significand * 2 ^ nat (snd me)
                  else significand / 2 ^ nat (- snd me))
         in if x < 0 then - v else v))"

definition format_1f :: "real \<Rightarrow> string" where
  "format_1f x =
     (let tenths = round_half_even (x * 10)
      in sprint_d (tenths div 10) @ ''.'' @ sprint_d (tenths mod 10))"

definition binary64 :: float64_ops where
  "binary64 =
     \<lparr>float64_of_int64 = (\<lambda>i. round_binary64 (real_of_int i)),
      float64_div = (\<lambda>a b. round_binary64 (a / b)),
      float64_mul = (\<lambda>a b. round_binary64 (a * b)),
      sprintf_1f = format_1f\<rparr>"

section \<open>Progress of a download, as the specification words it\<close>

text \<open>
  The sizes of the chunks a download writes before its loop is left: a chunk is written
  when it is not empty and the write succeeds; the loop is left at a failing write and
  after the first read that returns an error.
\<close>

fun written_chunks :: "sys \<Rightarrow> string \<Rightarrow> body_read list \<Rightarrow> nat \<Rightarrow> nat list" where
  "written_chunks S path [] written = []"
| "written_chunks S path (rd # rest) written =
     (let n = length (read_bytes rd)
      in if n > 0 \<and> os_Write_err S path written \<noteq> None then []
         else (if n > 0 then [n] else [])
              @ (if read_err rd \<noteq> None then [] else written_chunks S path rest (written + n)))"

text \<open>The number of bytes downloaded after each chunk, starting from \<open>acc\<close>.\<close>

fun running_totals :: "int \<Rightarrow> nat list \<Rightarrow> int list" where
  "running_totals acc [] = []"
| "running_totals acc (n # ns) = (acc + int n) # running_totals (acc + int n) ns"

section \<open>Auxiliary notions for the proofs\<close>

text \<open>
  The invariant of the concurrent coordinator: before the latch is set nothing has been
  decided or installed and no caller is inside; afterwards exactly one decision was
  entered, and while its caller is still inside no installer has been called yet.
\<close>

definition latch_inv :: "conf \<Rightarrow> bool" where
  "latch_inv c =
     (let t = trace (W c) in
      if installAttempted (W c)
      then count_list t DecisionEntered = 1 \<and>
           count_list t InstallYTDLPCalled \<le> 1 \<and> count_list t InstallFFMPEGCalled \<le> 1 \<and>
           (deciding c = {} \<or>
            ((\<exists>i. deciding c = {i}) \<and>
             count_list t InstallYTDLPCalled = 0 \<and> count_list t InstallFFMPEGCalled = 0))
      else count_list t DecisionEntered = 0 \<and> count_list t InstallYTDLPCalled = 0 \<and>
           count_list t InstallFFMPEGCalled = 0 \<and> deciding c = {})"

text \<open>
  A destination the extractor can write: creating, copying to and changing the mode of
  the path do not fail, and the path is not a directory.
\<close>

definition writable :: "sys \<Rightarrow> files \<Rightarrow> string \<Rightarrow> bool" where
  "writable S fls path =
     (os_Create_err S path = None \<and> io_Copy_fail S path = None \<and> os_Chmod_err S path = None
      \<and> (case os_Stat fls path of None \<Rightarrow> True | Some info \<Rightarrow> \<not> IsDir info))"

text \<open>Actions that are a run of the transcode tool, and actions that remove a file.\<close>

fun is_transcode :: "action \<Rightarrow> bool" where
  "is_transcode (Ran stage path args) = (stage = ''converting'')"
| "is_transcode a = False"

fun is_removal :: "action \<Rightarrow> bool" where
  "is_removal (Removed path) = True"
| "is_removal a = False"

section \<open>Properties of the string helpers\<close>

lemma strings_Contains_sublist: "strings_Contains s substr = sublist substr s"
  by (induction s) (auto simp: sublist_Cons_right)

text \<open>
  A replacement puts the new text between the same two pieces of the string whatever
  the new text is, so two replacements in a string that contains the old text agree only
  when the new texts agree.
\<close>

lemma strings_Replace1_decompose:
  "strings_Contains s old \<Longrightarrow>
     \<exists>before rest. (\<forall>new. strings_Replace1 s old new = before @ new @ rest)"
proof (induction s)
  case Nil
  then have "\<forall>new. strings_Replace1 [] old new = [] @ new @ []" by simp
  then show ?case by blast
next
  case (Cons c s)
  show ?case
  proof (cases "prefix old (c # s)")
    case True
    then have "\<forall>new. strings_Replace1 (c # s) old new = [] @ new @ drop (length old) (c # s)"
      by simp
    then show ?thesis by blast
  next
    case False
    with Cons.prems have "strings_Contains s old" by simp
    then obtain before rest where "\<forall>new. strings_Replace1 s old new = before @ new @ rest"
      using Cons.IH by blast
    with False have "\<forall>new. strings_Replace1 (c # s) old new = (c # before) @ new @ rest"
      by simp
    then show ?thesis by blast
  qed
qed

lemma strings_Replace1_inj:
  assumes "strings_Contains s old"
  shows "strings_Replace1 s old a = strings_Replace1 s old b \<longleftrightarrow> a = b"
proof -
  obtain before rest where "\<forall>new. strings_Replace1 s old new = before @ new @ rest"
    using strings_Replace1_decompose [OF assms] by blast
  then show ?thesis by simp
qed

text \<open>
  The replacement acts on the first occurrence of the old text: what stands before it
  and after it is kept. A string without the old text is returned unchanged.
\<close>

lemma prefix_in_longer_front:
  assumes "prefix xs (ys @ zs)" and "length xs \<le> length ys"
  shows "prefix xs ys"
proof -
  from assms(1) obtain us where "ys @ zs = xs @ us" by (auto simp add: prefix_def)
  then have "take (length xs) (ys @ zs) = xs" by simp
  with assms(2) have "take (length xs) ys = xs" by simp
  then show ?thesis using take_is_prefix [of "length xs" ys] by simp
qed

lemma strings_Replace1_first:
  assumes "old \<noteq> []" and "\<not> sublist old (before @ butlast old)"
  shows "strings_Replace1 (before @ old @ rest) old new = before @ new @ rest"
  using assms(2)
proof (induction before)
  case Nil
  from assms(1) obtain c cs where e: "old @ rest = c # cs" by (cases old) auto
  have "prefix old (c # cs)" unfolding e [symmetric] by simp
  then have "strings_Replace1 (c # cs) old new = new @ drop (length old) (c # cs)" by simp
  then have "strings_Replace1 (old @ rest) old new = new @ drop (length old) (old @ rest)"
    unfolding e .
  then show ?case by simp
next
  case (Cons b bs)
  have "\<not> prefix old (b # bs @ old @ rest)"
  proof
    assume p: "prefix old (b # bs @ old @ rest)"
    have "b # bs @ old @ rest = (b # bs @ butlast old) @ (last old # rest)"
      using assms(1) by simp
    with p have "prefix old ((b # bs @ butlast old) @ (last old # rest))" by simp
    moreover have "length old \<le> length (b # bs @ butlast old)" by simp
    ultimately have "prefix old (b # bs @ butlast old)"
      by (rule prefix_in_longer_front)
    then have "sublist old ((b # bs) @ butlast old)" by (simp add: prefix_imp_sublist)
    with Cons.prems show False by simp
  qed
  moreover have "\<not> sublist old (bs @ butlast old)"
    using Cons.prems by (auto simp add: sublist_Cons_right)
  ultimately show ?case
    using Cons.IH by simp
qed

lemma strings_Replace1_absent:
  "old \<noteq> [] \<Longrightarrow> \<not> sublist old s \<Longrightarrow> strings_Replace1 s old new = s"
  by (induction s) (auto simp add: sublist_Cons_right prefix_imp_sublist)

section \<open>Properties of the subprocess pipeline\<close>

lemma drain_stdout_filter:
  "drain_stdout True stage ls =
     map (\<lambda>_. \<lparr>BytesDownloaded = 0, TotalBytes = 0, Percentage = 0, Stage = stage\<rparr>)
       (filter (\<lambda>l. sublist ''%'' l \<or> sublist ''ETA'' l) ls)"
  by (induction ls) (simp_all add: strings_Contains_sublist)

lemma streamCommand_events:
  "launched run \<Longrightarrow>
     snd (streamCommand run cb stage) = drain_stdout cb stage (stdout_lines run)"
  by (simp add: streamCommand_def launched_def Let_def split: option.splits)

text \<open>
  C8. With a non-nil observer, a launched subprocess run delivers one event per scanned
  standard-output line that contains a percent sign or the marker \<open>ETA\<close>, in line order and
  for no other line; each event carries the stage label passed to \<open>streamCommand\<close> and
  zero in its byte-count, total and percentage fields.
\<close>

theorem streamCommand_progress_events:
  assumes "launched run"
  shows "snd (streamCommand run True stage) =
           map (\<lambda>_. \<lparr>BytesDownloaded = 0, TotalBytes = 0, Percentage = 0, Stage = stage\<rparr>)
             (filter (\<lambda>l. sublist ''%'' l \<or> sublist ''ETA'' l) (stdout_lines run))"
  using assms by (simp add: streamCommand_events drain_stdout_filter)

theorem streamCommand_progress_events_witness:
  "launched \<lparr>stdout_pipe_err = None, stderr_pipe_err = None, start_err = None,
       stdout_lines = [''[download]  42.0% of 3MiB'', ''Merging formats'', ''ETA 00:03''],
       stdout_scan_err = None, stderr_scan_err = None, stdout_done_first = True,
       wait_err = None\<rparr>
   \<and> snd (streamCommand \<lparr>stdout_pipe_err = None, stderr_pipe_err = None, start_err = None,
       stdout_lines = [''[download]  42.0% of 3MiB'', ''Merging formats'', ''ETA 00:03''],
       stdout_scan_err = None, stderr_scan_err = None, stdout_done_first = True,
       wait_err = None\<rparr> True ''downloading'')
     = [\<lparr>BytesDownloaded = 0, TotalBytes = 0, Percentage = 0, Stage = ''downloading''\<rparr>,
        \<lparr>BytesDownloaded = 0, TotalBytes = 0, Percentage = 0, Stage = ''downloading''\<rparr>]"
  using streamCommand_progress_events
    [of "\<lparr>stdout_pipe_err = None, stderr_pipe_err = None, start_err = None,
       stdout_lines = [''[download]  42.0% of 3MiB'', ''Merging formats'', ''ETA 00:03''],
       stdout_scan_err = None, stderr_scan_err = None, stdout_done_first = True,
       wait_err = None\<rparr>" "''downloading''"]
  by (simp add: launched_def sublist_code)

section \<open>Evaluating the model on concrete inputs\<close>

text \<open>The equations that unfold the concrete environment and the pipeline stages.\<close>

lemmas env_eval =
  fetching_def failing_transcode_def ok_run_def plain_file_def no_files_def process_start_def
  tryGetLocalBinary_def os_Stat_def Let_def

lemmas ensure_eval =
  ensureBinariesInstalled_def ensure_latch_def ensure_decide_def act_def

lemmas command_eval =
  run_command_def streamCommand_def launched_def drain_errOut_def record_scan_err_def notify_def

lemmas fetch_eval =
  video_fetch_stage_def audio_fetch_stage_def sprint_d_def decimal.simps
  video_selector_def video_fetch_args_def audio_fetch_args_def

section \<open>Properties of the installation coordinator\<close>

lemma act_simps [simp]:
  "trace (act a w) = trace w @ [a]" "fs (act a w) = fs w"
  "installAttempted (act a w) = installAttempted w"
  "YTDLPPath (act a w) = YTDLPPath w" "FFMPEGPath (act a w) = FFMPEGPath w"
  by (simp_all add: act_def)

lemma createAutoInstallMarker_simps [simp]:
  "trace (createAutoInstallMarker S w) = trace w"
  "installAttempted (createAutoInstallMarker S w) = installAttempted w"
  by (simp_all add: createAutoInstallMarker_def Let_def split: sum.splits)

lemma install_ytdlp_block_trace:
  "\<exists>m. trace (install_ytdlp_block S w) =
         trace w @ [Stderr (MsgInstalling ''yt-dlp''), InstallYTDLPCalled, Stderr m]"
  by (simp add: install_ytdlp_block_def Let_def split: option.splits)

lemma install_ffmpeg_block_trace:
  "\<exists>m. trace (install_ffmpeg_block S w) =
         trace w @ [Stderr (MsgInstalling ''ffmpeg''), InstallFFMPEGCalled, Stderr m]"
  by (simp add: install_ffmpeg_block_def Let_def split: option.splits)

lemma install_block_latch [simp]:
  "installAttempted (install_ytdlp_block S w) = installAttempted w"
  "installAttempted (install_ffmpeg_block S w) = installAttempted w"
  by (simp_all add: install_ytdlp_block_def install_ffmpeg_block_def Let_def split: option.splits)

lemma autoInstallBinaries_trace:
  "\<exists>acts. trace (snd (autoInstallBinaries S y f w)) = trace w @ acts \<and>
     count_list acts DecisionEntered = 0 \<and> count_list acts InstallYTDLPCalled \<le> 1 \<and>
     count_list acts InstallFFMPEGCalled \<le> 1"
proof -
  show ?thesis
  proof (cases y; cases f)
    assume "y" "f" then show ?thesis by (simp add: autoInstallBinaries_def)
  next
    assume "y" "\<not> f"
    obtain m where "trace (install_ffmpeg_block S (act (Stderr MsgFirstTimeSetup) w)) =
        trace (act (Stderr MsgFirstTimeSetup) w) @ [Stderr (MsgInstalling ''ffmpeg''), InstallFFMPEGCalled, Stderr m]"
      using install_ffmpeg_block_trace by blast
    with \<open>y\<close> \<open>\<not> f\<close> show ?thesis by (simp add: autoInstallBinaries_def Let_def)
  next
    assume "\<not> y" "f"
    obtain m where "trace (install_ytdlp_block S (act (Stderr MsgFirstTimeSetup) w)) =
        trace (act (Stderr MsgFirstTimeSetup) w) @ [Stderr (MsgInstalling ''yt-dlp''), InstallYTDLPCalled, Stderr m]"
      using install_ytdlp_block_trace by blast
    with \<open>\<not> y\<close> \<open>f\<close> show ?thesis by (simp add: autoInstallBinaries_def Let_def)
  next
    assume "\<not> y" "\<not> f"
    obtain m where a: "trace (install_ytdlp_block S (act (Stderr MsgFirstTimeSetup) w)) =
        trace (act (Stderr MsgFirstTimeSetup) w) @ [Stderr (MsgInstalling ''yt-dlp''), InstallYTDLPCalled, Stderr m]"
      using install_ytdlp_block_trace by blast
    obtain m' where b: "trace (install_ffmpeg_block S (install_ytdlp_block S (act (Stderr MsgFirstTimeSetup) w))) =
        trace (install_ytdlp_block S (act (Stderr MsgFirstTimeSetup) w)) @ [Stderr (MsgInstalling ''ffmpeg''), InstallFFMPEGCalled, Stderr m']"
      using install_ffmpeg_block_trace by blast
    from \<open>\<not> y\<close> \<open>\<not> f\<close> a b show ?thesis by (simp add: autoInstallBinaries_def Let_def)
  qed
qed

lemma autoInstallBinaries_latch [simp]:
  "installAttempted (snd (autoInstallBinaries S y f w)) = installAttempted w"
  by (simp add: autoInstallBinaries_def Let_def)

lemma ensure_decide_trace:
  "\<exists>acts. trace (snd (ensure_decide S w)) = trace w @ acts \<and>
     count_list acts DecisionEntered = 0 \<and> count_list acts InstallYTDLPCalled \<le> 1 \<and>
     count_list acts InstallFFMPEGCalled \<le> 1"
  using autoInstallBinaries_trace[of S _ _ w]
  by (auto simp add: ensure_decide_def Let_def)

lemma ensure_decide_latch [simp]:
  "installAttempted (snd (ensure_decide S w)) = installAttempted w"
  by (simp add: ensure_decide_def Let_def)


lemma latch_inv_start: "latch_inv (start_conf S fls)"
  by (simp add: latch_inv_def start_conf_def process_start_def)

lemma latch_inv_Call: "latch_inv c \<Longrightarrow> latch_inv (sched_step S (Call i) c)"
  by (auto simp add: latch_inv_def sched_step_def ensure_latch_def Let_def split: if_splits)

lemma latch_inv_Finish:
  assumes "latch_inv c"
  shows "latch_inv (sched_step S (Finish i) c)"
proof (cases "i \<in> deciding c")
  case False
  then show ?thesis using assms by (simp add: sched_step_def)
next
  case True
  obtain acts where acts: "trace (snd (ensure_decide S (W c))) = trace (W c) @ acts"
      "count_list acts DecisionEntered = 0" "count_list acts InstallYTDLPCalled \<le> 1"
      "count_list acts InstallFFMPEGCalled \<le> 1"
    using ensure_decide_trace by blast
  from True assms have att: "installAttempted (W c)" and one: "deciding c = {i}"
    and cnt: "count_list (trace (W c)) DecisionEntered = 1"
      "count_list (trace (W c)) InstallYTDLPCalled = 0"
      "count_list (trace (W c)) InstallFFMPEGCalled = 0"
    by (auto simp add: latch_inv_def Let_def split: if_splits)
  show ?thesis
    using True att one cnt acts
    by (simp add: latch_inv_def sched_step_def Let_def)
qed

lemma latch_inv_step: "latch_inv c \<Longrightarrow> latch_inv (sched_step S st c)"
proof (cases st)
  case (Call i)
  assume "latch_inv c" with Call show ?thesis by (simp add: latch_inv_Call)
next
  case (Finish i)
  assume "latch_inv c" with Finish show ?thesis by (simp add: latch_inv_Finish)
qed (auto simp add: latch_inv_def sched_step_def Let_def split: if_splits)

lemma latch_inv_run: "latch_inv c \<Longrightarrow> latch_inv (run_schedule S sched c)"
  unfolding run_schedule_def
  by (induction sched arbitrary: c) (simp_all add: latch_inv_step)

lemma latch_step_mono:
  "installAttempted (W c) \<Longrightarrow> installAttempted (W (sched_step S st c))"
  by (cases st) (simp_all add: sched_step_def ensure_latch_def Let_def)

lemma latch_run_mono:
  "installAttempted (W c) \<Longrightarrow> installAttempted (W (run_schedule S sched c))"
  unfolding run_schedule_def
  by (induction sched arbitrary: c) (simp_all add: latch_step_mono)

lemma ensure_after_first:
  "installAttempted w \<Longrightarrow> ensureBinariesInstalled S w = (None, w)"
  by (simp add: ensureBinariesInstalled_def ensure_latch_def)

lemma sched_call_finish:
  "i \<notin> deciding c \<Longrightarrow>
   W (run_schedule S [Call i, Finish i] c) = snd (ensureBinariesInstalled S (W c))"
  by (simp add: run_schedule_def sched_step_def ensureBinariesInstalled_def ensure_latch_def Let_def)

text \<open>
  C2. In one process, whatever the schedule of concurrent and repeated calls of
  \<open>ensureBinariesInstalled\<close> (and of path rebinding and file changes in between), the
  decision procedure is entered at most once and each installer is called at most once.
  The latch \<open>installAttempted\<close> is false when the process starts, no step of any
  schedule resets it once it is true, and a call that finds it true returns \<open>nil\<close> and
  leaves the state as it is.
\<close>

theorem install_decision_at_most_once:
  "\<not> installAttempted (W (start_conf S fls)) \<and>
   count_list (trace (W (run_schedule S sched (start_conf S fls)))) DecisionEntered \<le> 1 \<and>
   count_list (trace (W (run_schedule S sched (start_conf S fls)))) InstallYTDLPCalled \<le> 1 \<and>
   count_list (trace (W (run_schedule S sched (start_conf S fls)))) InstallFFMPEGCalled \<le> 1 \<and>
   installAttempted (snd (ensure_latch w')) \<and>
   (installAttempted (W c) \<longrightarrow> installAttempted (W (run_schedule S later c))) \<and>
   (installAttempted w \<longrightarrow> ensureBinariesInstalled S w = (None, w))"
proof -
  have "latch_inv (run_schedule S sched (start_conf S fls))"
    by (simp add: latch_inv_run latch_inv_start)
  then have "count_list (trace (W (run_schedule S sched (start_conf S fls)))) DecisionEntered \<le> 1"
     "count_list (trace (W (run_schedule S sched (start_conf S fls)))) InstallYTDLPCalled \<le> 1"
     "count_list (trace (W (run_schedule S sched (start_conf S fls)))) InstallFFMPEGCalled \<le> 1"
    by (auto simp add: latch_inv_def Let_def split: if_splits)
  moreover have "\<not> installAttempted (W (start_conf S fls))"
    by (simp add: start_conf_def process_start_def)
  moreover have "installAttempted (snd (ensure_latch w'))"
    by (simp add: ensure_latch_def)
  ultimately show ?thesis
    by (simp add: latch_run_mono ensure_after_first)
qed

theorem install_decision_at_most_once_witness:
  "installAttempted (W (run_schedule (fetching ''mp4'') [Call 0] (start_conf (fetching ''mp4'') no_files)))
   \<and> installAttempted (W (run_schedule (fetching ''mp4'') [Call 1, Finish 0, Call 2]
        (run_schedule (fetching ''mp4'') [Call 0] (start_conf (fetching ''mp4'') no_files))))
   \<and> count_list (trace (W (run_schedule (fetching ''mp4'') [Call 0, Call 1, Finish 0, Call 2]
        (start_conf (fetching ''mp4'') no_files)))) DecisionEntered \<le> 1
   \<and> ensureBinariesInstalled (fetching ''mp4'')
         (W (run_schedule (fetching ''mp4'') [Call 0] (start_conf (fetching ''mp4'') no_files)))
       = (None, W (run_schedule (fetching ''mp4'') [Call 0] (start_conf (fetching ''mp4'') no_files)))"
  using install_decision_at_most_once
    [where S = "fetching ''mp4''" and fls = no_files
       and sched = "[Call 0, Call 1, Finish 0, Call 2]"
       and c = "run_schedule (fetching ''mp4'') [Call 0] (start_conf (fetching ''mp4'') no_files)"
       and later = "[Call 1, Finish 0, Call 2]"
       and w' = "process_start (fetching ''mp4'') no_files"
       and w = "W (run_schedule (fetching ''mp4'') [Call 0] (start_conf (fetching ''mp4'') no_files))"]
  by (simp add: run_schedule_def sched_step_def start_conf_def ensure_eval env_eval)

text \<open>
  C7. A first call of \<open>ensureBinariesInstalled\<close> with
  \<open>GOSTREAMPULLER_NO_AUTO_INSTALL\<close> set to \<open>1\<close> returns \<open>nil\<close>; it sets the latch and
  does nothing else: no installer is called, no file changes (nothing is downloaded) and
  the tool paths stay as they were, whether or not the tools are present.
\<close>

theorem ensure_opt_out_no_install:
  assumes "\<not> installAttempted w"
    and "os_Getenv S ''GOSTREAMPULLER_NO_AUTO_INSTALL'' = ''1''"
  shows "ensureBinariesInstalled S w =
           (None, w\<lparr>installAttempted := True, trace := trace w @ [DecisionEntered]\<rparr>)"
  using assms
  by (simp add: ensureBinariesInstalled_def ensure_latch_def ensure_decide_def act_def)

theorem ensure_opt_out_no_install_witness:
  "\<not> installAttempted (process_start (fetching ''mp4'') no_files)
   \<and> os_Getenv (fetching ''mp4'') ''GOSTREAMPULLER_NO_AUTO_INSTALL'' = ''1''
   \<and> \<not> checkBinaryExists (fetching ''mp4'') no_files ''yt-dlp''
   \<and> \<not> checkBinaryExists (fetching ''mp4'') no_files ''ffmpeg''
   \<and> ensureBinariesInstalled (fetching ''mp4'') (process_start (fetching ''mp4'') no_files) =
       (None, \<lparr>fs = no_files, installAttempted = True, YTDLPPath = ''yt-dlp'',
               FFMPEGPath = ''ffmpeg'', trace = [DecisionEntered]\<rparr>)"
  using ensure_opt_out_no_install [of "process_start (fetching ''mp4'') no_files" "fetching ''mp4''"]
  by (simp add: env_eval checkBinaryExists_def)

section \<open>Properties of the media pipeline\<close>

lemma probe_extensions_find:
  "probe_extensions fls temp exts =
     (case find (\<lambda>ext. os_Stat fls (strings_Replace1 temp ''%(ext)s'' ext) \<noteq> None) exts of
        None \<Rightarrow> []
      | Some ext \<Rightarrow> strings_Replace1 temp ''%(ext)s'' ext)"
  by (induction exts) (simp_all add: Let_def)

lemma stat_nonempty: "os_Stat fls path \<noteq> None \<Longrightarrow> path \<noteq> []"
  by (auto simp add: os_Stat_def)

lemma find_stat_nonempty:
  "find (\<lambda>ext. os_Stat fls (strings_Replace1 temp ''%(ext)s'' ext) \<noteq> None) exts = Some ext
     \<Longrightarrow> strings_Replace1 temp ''%(ext)s'' ext \<noteq> []"
proof -
  assume "find (\<lambda>ext. os_Stat fls (strings_Replace1 temp ''%(ext)s'' ext) \<noteq> None) exts = Some ext"
  then have "os_Stat fls (strings_Replace1 temp ''%(ext)s'' ext) \<noteq> None"
    by (auto simp add: find_Some_iff)
  then show ?thesis by (rule stat_nonempty)
qed

lemma run_command_launched:
  assumes "exec_Command S path args (fs w) = (run, fls')" and "launched run"
  shows "run_command S path args cb stage w =
           (fst (streamCommand run cb stage), snd (streamCommand run cb stage),
            (act (Ran stage path args) w)\<lparr>fs := fls'\<rparr>)"
  using assms by (simp add: run_command_def Let_def)

lemma run_command_trace [simp]:
  "trace (snd (snd (run_command S path args cb stage w))) = trace w @ [Ran stage path args]"
  by (simp add: run_command_def Let_def)

lemma run_command_paths [simp]:
  "FFMPEGPath (snd (snd (run_command S path args cb stage w))) = FFMPEGPath w"
  "YTDLPPath (snd (snd (run_command S path args cb stage w))) = YTDLPPath w"
  by (simp_all add: run_command_def Let_def)

lemma streamCommand_exit_nonzero:
  "launched run \<Longrightarrow> wait_err run = Some e \<Longrightarrow>
     fst (streamCommand run cb stage) = Some (CommandFailed e (drain_errOut run))"
  by (simp add: streamCommand_def launched_def Let_def)

lemma video_after_fetch_find:
  "video_after_fetch S temp format cb evs w =
     (case find (\<lambda>ext. os_Stat (fs w) (strings_Replace1 temp ''%(ext)s'' ext) \<noteq> None)
             video_possibleExtensions of
        None \<Rightarrow> \<lparr>result = Inl VideoFileNotFound, events = evs, after = w\<rparr>
      | Some ext \<Rightarrow> video_finish S temp format cb evs w (strings_Replace1 temp ''%(ext)s'' ext))"
proof (cases "find (\<lambda>ext. os_Stat (fs w) (strings_Replace1 temp ''%(ext)s'' ext) \<noteq> None)
             video_possibleExtensions")
  case None
  then show ?thesis
    unfolding video_after_fetch_def probe_extensions_find Let_def
    by (simp only: option.case if_True simp_thms)
next
  case (Some ext)
  then have "strings_Replace1 temp ''%(ext)s'' ext \<noteq> []"
    by (rule find_stat_nonempty)
  with Some show ?thesis
    unfolding video_after_fetch_def probe_extensions_find Let_def
    by (simp only: option.case if_False simp_thms)
qed

lemma audio_after_fetch_find:
  "audio_after_fetch S temp format codec bitrate cb evs w =
     (case find (\<lambda>ext. os_Stat (fs w) (strings_Replace1 temp ''%(ext)s'' ext) \<noteq> None)
             audio_possibleExtensions of
        None \<Rightarrow> \<lparr>result = Inl AudioFileNotFound, events = evs, after = w\<rparr>
      | Some ext \<Rightarrow>
          audio_finish S temp format codec bitrate cb evs w (strings_Replace1 temp ''%(ext)s'' ext))"
proof (cases "find (\<lambda>ext. os_Stat (fs w) (strings_Replace1 temp ''%(ext)s'' ext) \<noteq> None)
             audio_possibleExtensions")
  case None
  then show ?thesis
    unfolding audio_after_fetch_def probe_extensions_find Let_def
    by (simp only: option.case if_True simp_thms)
next
  case (Some ext)
  then have "strings_Replace1 temp ''%(ext)s'' ext \<noteq> []"
    by (rule find_stat_nonempty)
  with Some show ?thesis
    unfolding audio_after_fetch_def probe_extensions_find Let_def
    by (simp only: option.case if_False simp_thms)
qed

text \<open>
  The fetch stage in the concrete environment: the fetch tool has written the template
  with the extension \<open>ext\<close>.
\<close>

lemma video_fetch_stage_fetching:
  "video_fetch_stage (fetching ext) 7 url ''mp4'' [] [] ''/out'' False
       (process_start (fetching ext) no_files)
     = Inr (''/out/video_7.%(ext)s'', ''mp4'', [],
         \<lparr>fs = no_files(''/out/video_7.'' @ ext \<mapsto> plain_file), installAttempted = True,
          YTDLPPath = ''yt-dlp'', FFMPEGPath = ''ffmpeg'',
          trace = [DecisionEntered, MadeDir ''/out'',
            Ran ''downloading'' ''yt-dlp''
              (video_fetch_args (video_selector ''720'' ''avc1'') ''/out/video_7.%(ext)s'' url)]\<rparr>)"
  by (simp add: video_fetch_stage_def sprint_d_def decimal.simps video_fetch_args_def
      ensure_eval command_eval env_eval)

lemma audio_fetch_stage_fetching:
  "audio_fetch_stage (fetching ext) 7 url [] [] [] ''/out'' False
       (process_start (fetching ext) no_files)
     = Inr (''/out/audio_7.%(ext)s'', ''mp3'', ''libmp3lame'', ''128k'', [],
         \<lparr>fs = no_files(''/out/audio_7.'' @ ext \<mapsto> plain_file), installAttempted = True,
          YTDLPPath = ''yt-dlp'', FFMPEGPath = ''ffmpeg'',
          trace = [DecisionEntered, MadeDir ''/out'',
            Ran ''downloading'' ''yt-dlp'' (audio_fetch_args ''/out/audio_7.%(ext)s'' url)]\<rparr>)"
  by (simp add: audio_fetch_stage_def sprint_d_def decimal.simps audio_fetch_args_def
      ensure_eval command_eval env_eval)

text \<open>
  The same fetch when the output directory already holds an \<open>mkv\<close> file of the same
  name: both files exist afterwards.
\<close>

lemma video_fetch_stage_stale_mkv:
  "video_fetch_stage (fetching ''webm'') 7 url ''mkv'' [] [] ''/out'' False
       (process_start (fetching ''webm'') (no_files(''/out/video_7.mkv'' \<mapsto> plain_file)))
     = Inr (''/out/video_7.%(ext)s'', ''mkv'', [],
         \<lparr>fs = no_files(''/out/video_7.mkv'' \<mapsto> plain_file, ''/out/video_7.webm'' \<mapsto> plain_file),
          installAttempted = True,
          YTDLPPath = ''yt-dlp'', FFMPEGPath = ''ffmpeg'',
          trace = [DecisionEntered, MadeDir ''/out'',
            Ran ''downloading'' ''yt-dlp''
              (video_fetch_args (video_selector ''720'' ''avc1'') ''/out/video_7.%(ext)s'' url)]\<rparr>)"
  by (simp add: video_fetch_stage_def sprint_d_def decimal.simps video_fetch_args_def
      ensure_eval command_eval env_eval)

lemmas finish_eval =
  video_finish_def audio_finish_def video_ffmpeg_args_def audio_ffmpeg_args_def os_Remove_def

text \<open>
  C6. After a successful fetch each pipeline discovers the produced file by putting each
  extension of its fixed list, in list order, into the output template and taking the
  first candidate path that exists; it goes on with that path. When no candidate exists
  it returns the not-found error of the pipeline and no path. The candidate for an
  extension is the template with the first \<open>%(ext)s\<close> replaced by the extension, and
  the template itself when it has no \<open>%(ext)s\<close>.
\<close>

theorem discovery_first_existing_candidate:
  "(video_fetch_stage S now url f r c d cb w0 = Inr (temp, format, evs, w)
    \<longrightarrow>
    DownloadVideoToDirWithProgress S now url f r c d cb w0 =
     (case find (\<lambda>ext. os_Stat (fs w) (strings_Replace1 temp ''%(ext)s'' ext) \<noteq> None)
             [''mkv'', ''mp4'', ''webm'', ''avi'', ''mov'', ''flv''] of
        None \<Rightarrow> \<lparr>result = Inl VideoFileNotFound, events = evs, after = w\<rparr>
      | Some ext \<Rightarrow> video_finish S temp format cb evs w (strings_Replace1 temp ''%(ext)s'' ext)))
   \<and>
   (audio_fetch_stage SA nowA urlA fA cA bA dA cbA wA0
        = Inr (tempA, formatA, codec, bitrate, evsA, wA)
    \<longrightarrow>
    DownloadAudioToDirWithProgress SA nowA urlA fA cA bA dA cbA wA0 =
     (case find (\<lambda>ext. os_Stat (fs wA) (strings_Replace1 tempA ''%(ext)s'' ext) \<noteq> None)
             [''webm'', ''m4a'', ''opus'', ''ogg'', ''mp3'', ''aac''] of
        None \<Rightarrow> \<lparr>result = Inl AudioFileNotFound, events = evsA, after = wA\<rparr>
      | Some ext \<Rightarrow>
          audio_finish SA tempA formatA codec bitrate cbA evsA wA
            (strings_Replace1 tempA ''%(ext)s'' ext)))
   \<and>
   (\<not> sublist ''%(ext)s'' (before @ ''%(ext)'')
    \<longrightarrow> strings_Replace1 (before @ ''%(ext)s'' @ rest) ''%(ext)s'' candidate_ext
          = before @ candidate_ext @ rest)
   \<and>
   (\<not> sublist ''%(ext)s'' plain
    \<longrightarrow> strings_Replace1 plain ''%(ext)s'' candidate_ext = plain)"
proof (intro conjI impI)
  assume "video_fetch_stage S now url f r c d cb w0 = Inr (temp, format, evs, w)"
  then have "DownloadVideoToDirWithProgress S now url f r c d cb w0
               = video_after_fetch S temp format cb evs w"
    by (simp add: DownloadVideoToDirWithProgress_def)
  then show "DownloadVideoToDirWithProgress S now url f r c d cb w0 =
     (case find (\<lambda>ext. os_Stat (fs w) (strings_Replace1 temp ''%(ext)s'' ext) \<noteq> None)
             [''mkv'', ''mp4'', ''webm'', ''avi'', ''mov'', ''flv''] of
        None \<Rightarrow> \<lparr>result = Inl VideoFileNotFound, events = evs, after = w\<rparr>
      | Some ext \<Rightarrow> video_finish S temp format cb evs w (strings_Replace1 temp ''%(ext)s'' ext))"
    using video_after_fetch_find [of S temp format cb evs w]
    unfolding video_possibleExtensions_def by (simp only:)
next
  assume "audio_fetch_stage SA nowA urlA fA cA bA dA cbA wA0
        = Inr (tempA, formatA, codec, bitrate, evsA, wA)"
  then have "DownloadAudioToDirWithProgress SA nowA urlA fA cA bA dA cbA wA0
               = audio_after_fetch SA tempA formatA codec bitrate cbA evsA wA"
    by (simp add: DownloadAudioToDirWithProgress_def)
  then show "DownloadAudioToDirWithProgress SA nowA urlA fA cA bA dA cbA wA0 =
     (case find (\<lambda>ext. os_Stat (fs wA) (strings_Replace1 tempA ''%(ext)s'' ext) \<noteq> None)
             [''webm'', ''m4a'', ''opus'', ''ogg'', ''mp3'', ''aac''] of
        None \<Rightarrow> \<lparr>result = Inl AudioFileNotFound, events = evsA, after = wA\<rparr>
      | Some ext \<Rightarrow>
          audio_finish SA tempA formatA codec bitrate cbA evsA wA
            (strings_Replace1 tempA ''%(ext)s'' ext))"
    using audio_after_fetch_find [of SA tempA formatA codec bitrate cbA evsA wA]
    unfolding audio_possibleExtensions_def by (simp only:)
next
  assume "\<not> sublist ''%(ext)s'' (before @ ''%(ext)'')"
  then have "\<not> sublist ''%(ext)s'' (before @ butlast ''%(ext)s'')" by simp
  then show "strings_Replace1 (before @ ''%(ext)s'' @ rest) ''%(ext)s'' candidate_ext
          = before @ candidate_ext @ rest"
    by (intro strings_Replace1_first) simp_all
next
  assume "\<not> sublist ''%(ext)s'' plain"
  then show "strings_Replace1 plain ''%(ext)s'' candidate_ext = plain"
    by (intro strings_Replace1_absent) simp_all
qed

theorem discovery_first_existing_candidate_witness:
  "result (DownloadVideoToDirWithProgress (fetching ''mp4'') 7 ''https://example.org/v''
      ''mp4'' [] [] ''/out'' False (process_start (fetching ''mp4'') no_files))
     = Inr ''/out/video_7.mp4''
   \<and> result (DownloadVideoToDirWithProgress (fetching ''part'') 7 ''https://example.org/v''
      ''mp4'' [] [] ''/out'' False (process_start (fetching ''part'') no_files))
     = Inl VideoFileNotFound
   \<and> result (DownloadAudioToDirWithProgress (fetching ''m4a'') 7 ''https://example.org/v''
      [] [] [] ''/out'' False (process_start (fetching ''m4a'') no_files))
     = Inr ''/out/audio_7.mp3''
   \<and> filter is_transcode (trace (after
       (DownloadAudioToDirWithProgress (fetching ''m4a'') 7 ''https://example.org/v''
          [] [] [] ''/out'' False (process_start (fetching ''m4a'') no_files))))
     = [Ran ''converting'' ''ffmpeg''
          (audio_ffmpeg_args ''/out/audio_7.m4a'' ''libmp3lame'' ''128k'' ''/out/audio_7.mp3'')]
   \<and> result (DownloadAudioToDirWithProgress (fetching ''part'') 7 ''https://example.org/v''
      [] [] [] ''/out'' False (process_start (fetching ''part'') no_files))
     = Inl AudioFileNotFound
   \<and> result (DownloadVideoToDirWithProgress (fetching ''webm'') 7 ''https://example.org/v''
      ''mkv'' [] [] ''/out'' False
      (process_start (fetching ''webm'') (no_files(''/out/video_7.mkv'' \<mapsto> plain_file))))
     = Inr ''/out/video_7.mkv''
   \<and> os_Stat (fs (after (DownloadVideoToDirWithProgress (fetching ''webm'') 7
      ''https://example.org/v'' ''mkv'' [] [] ''/out'' False
      (process_start (fetching ''webm'') (no_files(''/out/video_7.mkv'' \<mapsto> plain_file))))))
        ''/out/video_7.webm'' \<noteq> None
   \<and> strings_Replace1 (''/out/video_7.'' @ ''%(ext)s'' @ []) ''%(ext)s'' ''mp4''
     = ''/out/video_7.'' @ ''mp4'' @ []
   \<and> strings_Replace1 ''/out/video_7'' ''%(ext)s'' ''mp4'' = ''/out/video_7''"
proof -
  note found = discovery_first_existing_candidate [THEN conjunct1, THEN mp,
      OF video_fetch_stage_fetching [of "''mp4''" "''https://example.org/v''"]]
  note both = discovery_first_existing_candidate [THEN conjunct1, THEN mp,
      OF video_fetch_stage_stale_mkv [of "''https://example.org/v''"]]
  note not_found = discovery_first_existing_candidate [THEN conjunct1, THEN mp,
      OF video_fetch_stage_fetching [of "''part''" "''https://example.org/v''"]]
  note foundA = discovery_first_existing_candidate [THEN conjunct2, THEN conjunct1, THEN mp,
      OF audio_fetch_stage_fetching [of "''m4a''" "''https://example.org/v''"]]
  note not_foundA = discovery_first_existing_candidate [THEN conjunct2, THEN conjunct1, THEN mp,
      OF audio_fetch_stage_fetching [of "''part''" "''https://example.org/v''"]]
  have a: "\<not> sublist ''%(ext)s'' (''/out/video_7.'' @ ''%(ext)'')"
    by (simp add: sublist_code)
  have b: "\<not> sublist ''%(ext)s'' ''/out/video_7''"
    by (simp add: sublist_code)
  note cand = discovery_first_existing_candidate
      [where rest = "[]" and candidate_ext = "''mp4''",
       THEN conjunct2, THEN conjunct2, THEN conjunct1, THEN mp, OF a]
  note plain = discovery_first_existing_candidate
      [where candidate_ext = "''mp4''",
       THEN conjunct2, THEN conjunct2, THEN conjunct2, THEN mp, OF b]
  show ?thesis
    unfolding found both not_found foundA not_foundA
    using cand plain
    by (simp add: finish_eval command_eval env_eval)
qed

lemma video_finish_transcode_fails:
  assumes "downloaded \<noteq> strings_Replace1 temp ''%(ext)s'' format"
    and "exec_Command S (FFMPEGPath w)
           (video_ffmpeg_args downloaded (strings_Replace1 temp ''%(ext)s'' format)) (fs w) = (run, fls')"
    and "launched run" and "wait_err run = Some e"
  shows "video_finish S temp format cb evs w downloaded =
           \<lparr>result = Inl (ConversionFailed (CommandFailed e (drain_errOut run))),
            events = evs @ notify cb (stage_event ''Converting video format'')
                       @ snd (streamCommand run cb ''converting''),
            after = (act (Ran ''converting'' (FFMPEGPath w)
                       (video_ffmpeg_args downloaded (strings_Replace1 temp ''%(ext)s'' format))) w)
                     \<lparr>fs := fls'\<rparr>\<rparr>"
  using assms
  by (simp add: video_finish_def Let_def run_command_launched streamCommand_exit_nonzero)

lemma audio_finish_transcode_fails:
  assumes "exec_Command S (FFMPEGPath w)
           (audio_ffmpeg_args original codec bitrate (strings_Replace1 temp ''%(ext)s'' format)) (fs w) = (run, fls')"
    and "launched run" and "wait_err run = Some e"
  shows "audio_finish S temp format codec bitrate cb evs w original =
           \<lparr>result = Inl (ConversionFailed (CommandFailed e (drain_errOut run))),
            events = evs @ notify cb (stage_event ''Converting audio format'')
                       @ snd (streamCommand run cb ''converting''),
            after = (act (Ran ''converting'' (FFMPEGPath w)
                       (audio_ffmpeg_args original codec bitrate (strings_Replace1 temp ''%(ext)s'' format))) w)
                     \<lparr>fs := fls'\<rparr>\<rparr>"
  using assms
  by (simp add: audio_finish_def Let_def run_command_launched streamCommand_exit_nonzero)

lemma video_pipeline_found:
  assumes "video_fetch_stage S now url f r c d cb w0 = Inr (temp, format, evs, w)"
    and "find (\<lambda>ext. os_Stat (fs w) (strings_Replace1 temp ''%(ext)s'' ext) \<noteq> None)
           video_possibleExtensions = Some ext"
  shows "DownloadVideoToDirWithProgress S now url f r c d cb w0 =
           video_finish S temp format cb evs w (strings_Replace1 temp ''%(ext)s'' ext)"
  using assms by (simp add: DownloadVideoToDirWithProgress_def video_after_fetch_find)

lemma audio_pipeline_found:
  assumes "audio_fetch_stage S now url f c b d cb w0 = Inr (temp, format, codec, bitrate, evs, w)"
    and "find (\<lambda>ext. os_Stat (fs w) (strings_Replace1 temp ''%(ext)s'' ext) \<noteq> None)
           audio_possibleExtensions = Some ext"
  shows "DownloadAudioToDirWithProgress S now url f c b d cb w0 =
           audio_finish S temp format codec bitrate cb evs w (strings_Replace1 temp ''%(ext)s'' ext)"
  using assms by (simp add: DownloadAudioToDirWithProgress_def audio_after_fetch_find)

text \<open>
  C3. When the transcode subprocess of a job is launched and exits with an error, the
  pipeline returns the conversion error wrapping the error of the subprocess, which is
  not the error of the fetch step; the files are left as the transcode tool left them
  and no file is removed: the only action after the fetch is the run of the transcode
  tool. This holds for the video pipeline and, independently, for the audio pipeline.
\<close>

theorem transcode_failure_keeps_intermediate:
  "(video_fetch_stage S now url f r c d cb w0 = Inr (temp, format, evs, w)
    \<and> find (\<lambda>ext. os_Stat (fs w) (strings_Replace1 temp ''%(ext)s'' ext) \<noteq> None)
           video_possibleExtensions = Some ext
    \<and> strings_Replace1 temp ''%(ext)s'' ext \<noteq> strings_Replace1 temp ''%(ext)s'' format
    \<and> exec_Command S (FFMPEGPath w)
           (video_ffmpeg_args (strings_Replace1 temp ''%(ext)s'' ext)
              (strings_Replace1 temp ''%(ext)s'' format)) (fs w) = (run, fls')
    \<and> launched run \<and> wait_err run = Some e
    \<longrightarrow>
      result (DownloadVideoToDirWithProgress S now url f r c d cb w0) =
           Inl (ConversionFailed (CommandFailed e (drain_errOut run)))
       \<and> result (DownloadVideoToDirWithProgress S now url f r c d cb w0) \<noteq> Inl (VideoDownloadFailed x)
       \<and> fs (after (DownloadVideoToDirWithProgress S now url f r c d cb w0)) = fls'
       \<and> trace (after (DownloadVideoToDirWithProgress S now url f r c d cb w0)) =
           trace w @ [Ran ''converting'' (FFMPEGPath w)
             (video_ffmpeg_args (strings_Replace1 temp ''%(ext)s'' ext)
                (strings_Replace1 temp ''%(ext)s'' format))])
   \<and>
   (audio_fetch_stage SA nowA urlA fA cA bA dA cbA wA0
        = Inr (tempA, formatA, codec, bitrate, evsA, wA)
    \<and> find (\<lambda>ext. os_Stat (fs wA) (strings_Replace1 tempA ''%(ext)s'' ext) \<noteq> None)
           audio_possibleExtensions = Some extA
    \<and> exec_Command SA (FFMPEGPath wA)
           (audio_ffmpeg_args (strings_Replace1 tempA ''%(ext)s'' extA) codec bitrate
              (strings_Replace1 tempA ''%(ext)s'' formatA)) (fs wA) = (runA, flsA')
    \<and> launched runA \<and> wait_err runA = Some eA
    \<longrightarrow>
      result (DownloadAudioToDirWithProgress SA nowA urlA fA cA bA dA cbA wA0) =
           Inl (ConversionFailed (CommandFailed eA (drain_errOut runA)))
       \<and> result (DownloadAudioToDirWithProgress SA nowA urlA fA cA bA dA cbA wA0)
            \<noteq> Inl (AudioFetchFailed xA)
       \<and> fs (after (DownloadAudioToDirWithProgress SA nowA urlA fA cA bA dA cbA wA0)) = flsA'
       \<and> trace (after (DownloadAudioToDirWithProgress SA nowA urlA fA cA bA dA cbA wA0)) =
           trace wA @ [Ran ''converting'' (FFMPEGPath wA)
             (audio_ffmpeg_args (strings_Replace1 tempA ''%(ext)s'' extA) codec bitrate
                (strings_Replace1 tempA ''%(ext)s'' formatA))])"
proof (rule conjI; rule impI; (elim conjE)?)
  assume h: "video_fetch_stage S now url f r c d cb w0 = Inr (temp, format, evs, w)"
    "find (\<lambda>ext. os_Stat (fs w) (strings_Replace1 temp ''%(ext)s'' ext) \<noteq> None)
           video_possibleExtensions = Some ext"
    "strings_Replace1 temp ''%(ext)s'' ext \<noteq> strings_Replace1 temp ''%(ext)s'' format"
    "exec_Command S (FFMPEGPath w)
           (video_ffmpeg_args (strings_Replace1 temp ''%(ext)s'' ext)
              (strings_Replace1 temp ''%(ext)s'' format)) (fs w) = (run, fls')"
    "launched run" "wait_err run = Some e"
  have v: "DownloadVideoToDirWithProgress S now url f r c d cb w0 =
      \<lparr>result = Inl (ConversionFailed (CommandFailed e (drain_errOut run))),
            events = evs @ notify cb (stage_event ''Converting video format'')
                       @ snd (streamCommand run cb ''converting''),
            after = (act (Ran ''converting'' (FFMPEGPath w)
                       (video_ffmpeg_args (strings_Replace1 temp ''%(ext)s'' ext)
                           (strings_Replace1 temp ''%(ext)s'' format))) w)
                     \<lparr>fs := fls'\<rparr>\<rparr>"
    unfolding video_pipeline_found [OF h(1,2)]
    by (rule video_finish_transcode_fails [OF h(3,4,5,6)])
  show "result (DownloadVideoToDirWithProgress S now url f r c d cb w0) =
           Inl (ConversionFailed (CommandFailed e (drain_errOut run)))
       \<and> result (DownloadVideoToDirWithProgress S now url f r c d cb w0) \<noteq> Inl (VideoDownloadFailed x)
       \<and> fs (after (DownloadVideoToDirWithProgress S now url f r c d cb w0)) = fls'
       \<and> trace (after (DownloadVideoToDirWithProgress S now url f r c d cb w0)) =
           trace w @ [Ran ''converting'' (FFMPEGPath w)
             (video_ffmpeg_args (strings_Replace1 temp ''%(ext)s'' ext)
                (strings_Replace1 temp ''%(ext)s'' format))]"
    unfolding v by (simp add: act_def)
next
  assume h: "audio_fetch_stage SA nowA urlA fA cA bA dA cbA wA0
        = Inr (tempA, formatA, codec, bitrate, evsA, wA)"
    "find (\<lambda>ext. os_Stat (fs wA) (strings_Replace1 tempA ''%(ext)s'' ext) \<noteq> None)
           audio_possibleExtensions = Some extA"
    "exec_Command SA (FFMPEGPath wA)
           (audio_ffmpeg_args (strings_Replace1 tempA ''%(ext)s'' extA) codec bitrate
              (strings_Replace1 tempA ''%(ext)s'' formatA)) (fs wA) = (runA, flsA')"
    "launched runA" "wait_err runA = Some eA"
  have a: "DownloadAudioToDirWithProgress SA nowA urlA fA cA bA dA cbA wA0 =
      \<lparr>result = Inl (ConversionFailed (CommandFailed eA (drain_errOut runA))),
            events = evsA @ notify cbA (stage_event ''Converting audio format'')
                       @ snd (streamCommand runA cbA ''converting''),
            after = (act (Ran ''converting'' (FFMPEGPath wA)
                       (audio_ffmpeg_args (strings_Replace1 tempA ''%(ext)s'' extA) codec bitrate
                           (strings_Replace1 tempA ''%(ext)s'' formatA))) wA)
                     \<lparr>fs := flsA'\<rparr>\<rparr>"
    unfolding audio_pipeline_found [OF h(1,2)]
    by (rule audio_finish_transcode_fails [OF h(3,4,5)])
  show "result (DownloadAudioToDirWithProgress SA nowA urlA fA cA bA dA cbA wA0) =
           Inl (ConversionFailed (CommandFailed eA (drain_errOut runA)))
       \<and> result (DownloadAudioToDirWithProgress SA nowA urlA fA cA bA dA cbA wA0)
            \<noteq> Inl (AudioFetchFailed xA)
       \<and> fs (after (DownloadAudioToDirWithProgress SA nowA urlA fA cA bA dA cbA wA0)) = flsA'
       \<and> trace (after (DownloadAudioToDirWithProgress SA nowA urlA fA cA bA dA cbA wA0)) =
           trace wA @ [Ran ''converting'' (FFMPEGPath wA)
             (audio_ffmpeg_args (strings_Replace1 tempA ''%(ext)s'' extA) codec bitrate
                (strings_Replace1 tempA ''%(ext)s'' formatA))]"
    unfolding a by (simp add: act_def)
qed

theorem transcode_failure_keeps_intermediate_witness:
  "result (DownloadVideoToDirWithProgress (failing_transcode ''webm'') 7 ''https://example.org/v''
      ''mp4'' [] [] ''/out'' False (process_start (failing_transcode ''webm'') no_files))
     = Inl (ConversionFailed (CommandFailed (OsError ''exit status 1'') None))
   \<and> os_Stat (fs (after (DownloadVideoToDirWithProgress (failing_transcode ''webm'') 7
      ''https://example.org/v'' ''mp4'' [] [] ''/out'' False
      (process_start (failing_transcode ''webm'') no_files)))) ''/out/video_7.webm'' = Some plain_file
   \<and> result (DownloadAudioToDirWithProgress (failing_transcode ''webm'') 7 ''https://example.org/v''
      [] [] [] ''/out'' False (process_start (failing_transcode ''webm'') no_files))
     = Inl (ConversionFailed (CommandFailed (OsError ''exit status 1'') None))
   \<and> os_Stat (fs (after (DownloadAudioToDirWithProgress (failing_transcode ''webm'') 7
      ''https://example.org/v'' [] [] [] ''/out'' False
      (process_start (failing_transcode ''webm'') no_files)))) ''/out/audio_7.webm'' = Some plain_file"
proof -
  let ?S = "failing_transcode ''webm''"
  let ?start = "process_start ?S no_files"
  let ?url = "''https://example.org/v''"
  let ?run = "ok_run\<lparr>wait_err := Some (OsError ''exit status 1'')\<rparr>"
  let ?w = "\<lparr>fs = no_files(''/out/video_7.webm'' \<mapsto> plain_file), installAttempted = True,
      YTDLPPath = ''yt-dlp'', FFMPEGPath = ''ffmpeg'',
      trace = [DecisionEntered, MadeDir ''/out'',
        Ran ''downloading'' ''yt-dlp''
          [''-f'', ''bestvideo[height<=720][vcodec*=avc1]+bestaudio/best'', ''-o'',
           ''/out/video_7.%(ext)s'', ''--no-part'', ''--concurrent-fragments'', ''3'',
           ''--buffer-size'', ''32K'', ''--retries'', ''10'', ''--fragment-retries'', ''10'', ?url]]\<rparr>"
  let ?wA = "\<lparr>fs = no_files(''/out/audio_7.webm'' \<mapsto> plain_file), installAttempted = True,
      YTDLPPath = ''yt-dlp'', FFMPEGPath = ''ffmpeg'',
      trace = [DecisionEntered, MadeDir ''/out'',
        Ran ''downloading'' ''yt-dlp''
          [''-f'', ''bestaudio'', ''-o'',
           ''/out/audio_7.%(ext)s'', ''--no-part'', ''--concurrent-fragments'', ''3'',
           ''--buffer-size'', ''32K'', ''--retries'', ''10'', ''--fragment-retries'', ''10'', ?url]]\<rparr>"
  have h1: "video_fetch_stage ?S 7 ?url ''mp4'' [] [] ''/out'' False ?start
              = Inr (''/out/video_7.%(ext)s'', ''mp4'', [], ?w)"
    by (simp add: fetch_eval ensure_eval command_eval env_eval)
  have h2: "find (\<lambda>ext. os_Stat (fs ?w) (strings_Replace1 ''/out/video_7.%(ext)s'' ''%(ext)s'' ext) \<noteq> None)
              video_possibleExtensions = Some ''webm''"
    by (simp add: video_possibleExtensions_def env_eval)
  have h3: "strings_Replace1 ''/out/video_7.%(ext)s'' ''%(ext)s'' ''webm''
              \<noteq> strings_Replace1 ''/out/video_7.%(ext)s'' ''%(ext)s'' ''mp4''"
    by simp
  have h4: "exec_Command ?S (FFMPEGPath ?w)
              (video_ffmpeg_args (strings_Replace1 ''/out/video_7.%(ext)s'' ''%(ext)s'' ''webm'')
                 (strings_Replace1 ''/out/video_7.%(ext)s'' ''%(ext)s'' ''mp4'')) (fs ?w)
              = (?run, fs ?w)"
    by (simp add: env_eval)
  have h5: "launched ?run" by (simp add: launched_def ok_run_def)
  have h6: "wait_err ?run = Some (OsError ''exit status 1'')" by simp
  have h7: "audio_fetch_stage ?S 7 ?url [] [] [] ''/out'' False ?start
              = Inr (''/out/audio_7.%(ext)s'', ''mp3'', ''libmp3lame'', ''128k'', [], ?wA)"
    by (simp add: fetch_eval ensure_eval command_eval env_eval)
  have h8: "find (\<lambda>ext. os_Stat (fs ?wA) (strings_Replace1 ''/out/audio_7.%(ext)s'' ''%(ext)s'' ext) \<noteq> None)
              audio_possibleExtensions = Some ''webm''"
    by (simp add: audio_possibleExtensions_def env_eval)
  have h9: "exec_Command ?S (FFMPEGPath ?wA)
              (audio_ffmpeg_args (strings_Replace1 ''/out/audio_7.%(ext)s'' ''%(ext)s'' ''webm'')
                 ''libmp3lame'' ''128k''
                 (strings_Replace1 ''/out/audio_7.%(ext)s'' ''%(ext)s'' ''mp3'')) (fs ?wA)
              = (?run, fs ?wA)"
    by (simp add: env_eval)
  note video = transcode_failure_keeps_intermediate [THEN conjunct1, THEN mp,
      OF conjI [OF h1 conjI [OF h2 conjI [OF h3 conjI [OF h4 conjI [OF h5 h6]]]]]]
  note audio = transcode_failure_keeps_intermediate [THEN conjunct2, THEN mp,
      OF conjI [OF h7 conjI [OF h8 conjI [OF h9 conjI [OF h5 h6]]]]]
  from video audio
  show ?thesis
    by (simp add: drain_errOut_def record_scan_err_def ok_run_def os_Stat_def)
qed

section \<open>Matching formats and successful transcodes\<close>



lemma install_blocks_transcodes [simp]:
  "filter is_transcode (trace (install_ytdlp_block S w)) = filter is_transcode (trace w)"
  "filter is_transcode (trace (install_ffmpeg_block S w)) = filter is_transcode (trace w)"
  "filter is_removal (trace (install_ytdlp_block S w)) = filter is_removal (trace w)"
  "filter is_removal (trace (install_ffmpeg_block S w)) = filter is_removal (trace w)"
  using install_ytdlp_block_trace [of S w] install_ffmpeg_block_trace [of S w]
  by auto

lemma autoInstallBinaries_transcodes [simp]:
  "filter is_transcode (trace (snd (autoInstallBinaries S y f w))) = filter is_transcode (trace w)"
  "filter is_removal (trace (snd (autoInstallBinaries S y f w))) = filter is_removal (trace w)"
  by (simp_all add: autoInstallBinaries_def Let_def)

lemma ensure_decide_transcodes [simp]:
  "filter is_transcode (trace (snd (ensure_decide S w))) = filter is_transcode (trace w)"
  "filter is_removal (trace (snd (ensure_decide S w))) = filter is_removal (trace w)"
  by (simp_all add: ensure_decide_def Let_def)

lemma ensure_transcodes [simp]:
  "filter is_transcode (trace (snd (ensureBinariesInstalled S w))) = filter is_transcode (trace w)"
  "filter is_removal (trace (snd (ensureBinariesInstalled S w))) = filter is_removal (trace w)"
  by (simp_all add: ensureBinariesInstalled_def ensure_latch_def)

lemma video_fetch_stage_trace:
  assumes "video_fetch_stage S now url f r c d cb w0 = Inr (temp, format, evs, w)"
  shows "filter is_transcode (trace w) = filter is_transcode (trace w0)
       \<and> filter is_removal (trace w) = filter is_removal (trace w0)
       \<and> format = (if f = [] then ''mp4'' else f)"
  using assms
  by (auto simp add: video_fetch_stage_def Let_def split: option.splits if_splits)


text \<open>
  The video pipeline when the format asked for (after defaults) is the extension of
  the file found: the call returns the absolute path of that file, runs no transcode
  and removes nothing.
\<close>

lemma video_matching_format_no_transcode:
  assumes "video_fetch_stage S now url f r c d cb w0 = Inr (temp, format, evs, w)"
    and "find (\<lambda>ext. os_Stat (fs w) (strings_Replace1 temp ''%(ext)s'' ext) \<noteq> None)
           video_possibleExtensions = Some ext"
    and "format = ext"
  shows "result (DownloadVideoToDirWithProgress S now url f r c d cb w0) =
           filepath_Abs S (strings_Replace1 temp ''%(ext)s'' ext)"
    and "filter is_transcode (trace (after (DownloadVideoToDirWithProgress S now url f r c d cb w0)))
           = filter is_transcode (trace w0)"
    and "filter is_removal (trace (after (DownloadVideoToDirWithProgress S now url f r c d cb w0)))
           = filter is_removal (trace w0)"
    and "fs (after (DownloadVideoToDirWithProgress S now url f r c d cb w0)) = fs w"
  using assms(3) video_fetch_stage_trace [OF assms(1)]
  unfolding video_pipeline_found [OF assms(1,2)]
  by (simp_all add: video_finish_def)



text \<open>
  The audio pipeline when the format asked for is the extension of the file fetched:
  the default format \<open>mp3\<close> and a fetch tool that writes an \<open>mp3\<close> file.
\<close>

lemma audio_mp3_job:
  "DownloadAudioToDirWithProgress (fetching ''mp3'') 7 ''https://example.org/a'' [] [] []
       ''/out'' False (process_start (fetching ''mp3'') no_files) =
     \<lparr>result = Inr ''/out/audio_7.mp3'', events = [],
      after = \<lparr>fs = no_files, installAttempted = True, YTDLPPath = ''yt-dlp'',
        FFMPEGPath = ''ffmpeg'',
        trace = [DecisionEntered, MadeDir ''/out'',
          Ran ''downloading'' ''yt-dlp''
            [''-f'', ''bestaudio'', ''-o'', ''/out/audio_7.%(ext)s'', ''--no-part'',
             ''--concurrent-fragments'', ''3'', ''--buffer-size'', ''32K'', ''--retries'', ''10'',
             ''--fragment-retries'', ''10'', ''https://example.org/a''],
          Ran ''converting'' ''ffmpeg''
            [''-i'', ''/out/audio_7.mp3'', ''-vn'', ''-acodec'', ''libmp3lame'', ''-ab'', ''128k'',
             ''-max_muxing_queue_size'', ''1024'', ''-y'', ''/out/audio_7.mp3''],
          Removed ''/out/audio_7.mp3'']\<rparr>\<rparr>"
  by (simp add: DownloadAudioToDirWithProgress_def fetch_eval ensure_eval command_eval env_eval
      audio_after_fetch_def audio_finish_def audio_possibleExtensions_def audio_ffmpeg_args_def
      os_Remove_def)

text \<open>
  C1. The specification says: when the format asked for equals the extension of the
  file the fetch tool produced, no transcode subprocess is invoked and the file found is
  the result, in the video pipeline and in the audio pipeline. The video pipeline does
  so (\<open>video_matching_format_no_transcode\<close>). The audio pipeline does not: in the job
  above it runs the transcode tool once, with the \<open>mp3\<close> file found as input and the
  same path as output.
\<close>

theorem audio_matching_format_still_transcodes:
  "filter is_transcode (trace (after
     (DownloadAudioToDirWithProgress (fetching ''mp3'') 7 ''https://example.org/a'' [] [] []
        ''/out'' False (process_start (fetching ''mp3'') no_files))))
   = [Ran ''converting'' ''ffmpeg''
        [''-i'', ''/out/audio_7.mp3'', ''-vn'', ''-acodec'', ''libmp3lame'', ''-ab'', ''128k'',
         ''-max_muxing_queue_size'', ''1024'', ''-y'', ''/out/audio_7.mp3'']]"
  unfolding audio_mp3_job by simp



section \<open>Properties of the binary download\<close>

lemma int64_add_no_wrap:
  "0 \<le> a \<Longrightarrow> 0 \<le> b \<Longrightarrow> a + b < 2 ^ 63 \<Longrightarrow> int64_add a b = a + b"
  by (simp add: int64_add_def)

lemma int64_quo_nonneg: "0 \<le> a \<Longrightarrow> 0 < b \<Longrightarrow> int64_quo a b = a div b"
  by (cases "a = 0") (simp_all add: int64_quo_def)

lemma running_totals_lower: "d \<in> set (running_totals acc ns) \<Longrightarrow> acc \<le> d"
  by (induction ns arbitrary: acc) force+

lemma download_loop_silent:
  "\<not> (progressFn \<and> total_len > 0) \<Longrightarrow>
     fst (snd (download_loop S F path progressFn total_len reads downloaded written lines fls)) = lines"
  by (induction reads arbitrary: downloaded written lines fls)
     (auto simp add: Let_def split: option.splits)

lemma download_loop_reports:
  assumes "0 < total_len" and "0 \<le> downloaded"
    and "downloaded + int (sum_list (map (\<lambda>rd. length (read_bytes rd)) reads)) < 2 ^ 63"
  shows "fst (snd (download_loop S F path True total_len reads downloaded written lines fls)) =
           lines @ map (progress_message F total_len)
                     (running_totals downloaded (written_chunks S path reads written))"
  using assms(2,3)
proof (induction reads arbitrary: downloaded written lines fls)
  case Nil
  then show ?case by simp
next
  case (Cons rd rest)
  let ?n = "length (read_bytes rd)"
  have nowrap: "int64_add downloaded (int ?n) = downloaded + int ?n"
    using Cons.prems by (intro int64_add_no_wrap) simp_all
  have next_ok: "0 \<le> downloaded + int ?n"
      "downloaded + int ?n + int (sum_list (map (\<lambda>rd. length (read_bytes rd)) rest)) < 2 ^ 63"
    using Cons.prems by simp_all
  show ?case
  proof (cases "?n > 0")
    case True
    show ?thesis
      using True nowrap assms(1) Cons.IH [OF next_ok]
      by (simp add: Let_def split: option.splits)
  next
    case False
    have rest_ok: "downloaded + int (sum_list (map (\<lambda>rd. length (read_bytes rd)) rest)) < 2 ^ 63"
      using Cons.prems False by simp
    show ?thesis
      using False Cons.IH [OF Cons.prems(1) rest_ok]
      by (simp add: Let_def split: option.splits)
  qed
qed

lemma progress_message_nonneg:
  assumes "0 < total_len" and "0 \<le> d"
  shows "progress_message F total_len d =
           ''Downloading... ''
           @ sprintf_1f F
               (float64_mul F
                  (float64_div F (float64_of_int64 F d) (float64_of_int64 F total_len)) 100)
           @ ''% ('' @ sprint_d (d div (1024 * 1024)) @ ''/''
           @ sprint_d (total_len div (1024 * 1024)) @ '' MB)''"
  using assms
  by (simp add: progress_message_def percentage_of_def int64_quo_nonneg)


text \<open>
  The bytes a download adds to its file are the chunks written: the file grows by the
  sum of their sizes.
\<close>

lemma download_loop_file_length:
  assumes "fls path = Some info"
  shows "\<exists>info'. snd (snd (download_loop S F path progressFn total_len reads downloaded written lines fls)) path
                  = Some info'
           \<and> length (Data info') = length (Data info) + sum_list (written_chunks S path reads written)"
  using assms
proof (induction reads arbitrary: downloaded written lines fls info)
  case Nil
  then show ?case by simp
next
  case (Cons rd rest)
  let ?n = "length (read_bytes rd)"
  show ?case
  proof (cases "?n > 0")
    case False
    from Cons.IH [where fls = fls and info = info, OF Cons.prems] Cons.prems False show ?thesis
      by (simp add: Let_def split: option.splits)
  next
    case True
    show ?thesis
    proof (cases "os_Write_err S path written")
      case (Some e)
      with True Cons.prems show ?thesis by (simp add: Let_def)
    next
      case None
      let ?d1 = "int64_add downloaded (int ?n)"
      let ?w1 = "written + ?n"
      let ?l1 = "if progressFn \<and> total_len > 0
                 then lines @ [progress_message F total_len ?d1] else lines"
      let ?f1 = "append_data path (read_bytes rd) fls"
      have f1: "?f1 path = Some (info\<lparr>Data := Data info @ read_bytes rd\<rparr>)"
        using Cons.prems by (simp add: append_data_def)
      have step: "download_loop S F path progressFn total_len (rd # rest) downloaded written lines fls =
          (case read_err rd of
             Some e \<Rightarrow> if e = EOF then (Some None, ?l1, ?f1) else (Some (Some e), ?l1, ?f1)
           | None \<Rightarrow> download_loop S F path progressFn total_len rest ?d1 ?w1 ?l1 ?f1)"
        using True None by (auto simp add: Let_def split: option.splits)
      have chunks: "written_chunks S path (rd # rest) written =
          ?n # (if read_err rd \<noteq> None then [] else written_chunks S path rest ?w1)"
        using True None by (simp add: Let_def)
      show ?thesis
      proof (cases "read_err rd")
        case (Some e)
        then show ?thesis
          unfolding step chunks using f1 by simp
      next
        case no_err: None
        obtain info' where
          "snd (snd (download_loop S F path progressFn total_len rest ?d1 ?w1 ?l1 ?f1)) path = Some info'"
          "length (Data info') = length (Data (info\<lparr>Data := Data info @ read_bytes rd\<rparr>))
                                  + sum_list (written_chunks S path rest ?w1)"
          using Cons.IH [where fls = ?f1 and info = "info\<lparr>Data := Data info @ read_bytes rd\<rparr>",
                         OF f1] by blast
        then show ?thesis
          unfolding step chunks using no_err by simp
      qed
    qed
  qed
qed

text \<open>
  In binary64 arithmetic 7 bytes of 100 give the percentage \<open>7.000000000000001\<close>,
  printed as \<open>7.0\<close>.
\<close>

lemmas binary64_eval =
  binary64_def round_binary64_def round_half_even_def scale_significand.simps format_1f_def
  percentage_of_def Let_def

lemma binary64_7_of_100:
  "float64_mul binary64 (float64_div binary64 (float64_of_int64 binary64 7)
       (float64_of_int64 binary64 100)) 100 = 7 + 1 / 2 ^ 50"
  by (simp add: binary64_eval)

lemma binary64_format_7:
  "sprintf_1f binary64 (float64_mul binary64 (float64_div binary64 (float64_of_int64 binary64 7)
       (float64_of_int64 binary64 100)) 100) = ''7.0''"
  unfolding binary64_7_of_100
  by (simp add: binary64_def format_1f_def round_half_even_def sprint_d_def decimal.simps)

text \<open>
  C9. A download reports progress exactly when its observer is non-nil and the response
  carries a positive content length (and the download got as far as its loop): then
  there is one report per chunk written. The report is the line
  \<open>Downloading... P% (d/t MB)\<close> where \<open>P\<close> is the \<open>%.1f\<close> rendering of the
  \<open>float64\<close> quotient of the bytes written so far by the content length, multiplied by
  100 in \<open>float64\<close>; the conversion, the division, the multiplication and the
  rendering are those of the platform. When the content length is unknown (\<open>-1\<close>) or
  zero nothing is reported. The \<open>int64\<close> counter is assumed not to wrap: the body is
  shorter than \<open>2^63\<close> bytes, as every file is.
\<close>

theorem downloadFile_progress_reports:
  assumes "sum_list (map (\<lambda>rd. length (read_bytes rd)) (Body resp)) < 2 ^ 63"
  shows "fst (snd (downloadFile S F (Inr resp) path progressFn fls)) =
           (if progressFn \<and> ContentLength resp > 0 \<and> StatusCode resp = 200
               \<and> isl (os_Create S path fls) = False
            then map (\<lambda>bytesDownloaded.
                        ''Downloading... ''
                        @ sprintf_1f F
                            (float64_mul F
                               (float64_div F (float64_of_int64 F bytesDownloaded)
                                  (float64_of_int64 F (ContentLength resp))) 100)
                        @ ''% ('' @ sprint_d (bytesDownloaded div (1024 * 1024)) @ ''/''
                        @ sprint_d (ContentLength resp div (1024 * 1024)) @ '' MB)'')
                   (running_totals 0 (written_chunks S path (Body resp) 0))
            else [])"
proof (cases "StatusCode resp = 200 \<and> isl (os_Create S path fls) = False")
  case False
  then show ?thesis
    by (auto simp add: downloadFile_def split: sum.splits)
next
  case True
  then obtain fls1 where c: "os_Create S path fls = Inr fls1"
    by (cases "os_Create S path fls") simp_all
  show ?thesis
  proof (cases "progressFn \<and> ContentLength resp > 0")
    case False
    then show ?thesis
      using True c by (auto simp add: downloadFile_def download_loop_silent)
  next
    case pos: True
    have loop: "fst (snd (download_loop S F path True (ContentLength resp) (Body resp) 0 0 [] fls1)) =
            [] @ map (progress_message F (ContentLength resp))
                   (running_totals 0 (written_chunks S path (Body resp) 0))"
      using pos assms by (intro download_loop_reports) simp_all
    have msgs: "map (progress_message F (ContentLength resp))
                   (running_totals 0 (written_chunks S path (Body resp) 0)) =
          map (\<lambda>bytesDownloaded.
                        ''Downloading... ''
                        @ sprintf_1f F
                            (float64_mul F
                               (float64_div F (float64_of_int64 F bytesDownloaded)
                                  (float64_of_int64 F (ContentLength resp))) 100)
                        @ ''% ('' @ sprint_d (bytesDownloaded div (1024 * 1024)) @ ''/''
                        @ sprint_d (ContentLength resp div (1024 * 1024)) @ '' MB)'')
                   (running_totals 0 (written_chunks S path (Body resp) 0))"
    proof (rule map_cong [OF refl])
      fix d assume "d \<in> set (running_totals 0 (written_chunks S path (Body resp) 0))"
      then have "0 \<le> d" by (rule running_totals_lower)
      with pos show "progress_message F (ContentLength resp) d =
            ''Downloading... ''
                        @ sprintf_1f F
                            (float64_mul F
                               (float64_div F (float64_of_int64 F d)
                                  (float64_of_int64 F (ContentLength resp))) 100)
                        @ ''% ('' @ sprint_d (d div (1024 * 1024)) @ ''/''
                        @ sprint_d (ContentLength resp div (1024 * 1024)) @ '' MB)''"
        by (intro progress_message_nonneg) simp_all
    qed
    show ?thesis
      using True c pos loop msgs by (simp add: downloadFile_def)
  qed
qed

theorem downloadFile_progress_reports_witness:
  "sum_list (map (\<lambda>rd. length (read_bytes rd))
      (Body \<lparr>StatusCode = 200, Status = ''200 OK'', ContentLength = 100,
             Body = [\<lparr>read_bytes = ''abcdefg'', read_err = Some EOF\<rparr>]\<rparr>)) < 2 ^ 63
   \<and> fst (snd (downloadFile (fetching ''mp4'') binary64
        (Inr \<lparr>StatusCode = 200, Status = ''200 OK'', ContentLength = 100,
             Body = [\<lparr>read_bytes = ''abcdefg'', read_err = Some EOF\<rparr>]\<rparr>)
        ''/bin/yt-dlp'' True no_files))
       = [''Downloading... 7.0% (0/0 MB)'']
   \<and> fst (snd (downloadFile (fetching ''mp4'') binary64
        (Inr \<lparr>StatusCode = 200, Status = ''200 OK'', ContentLength = - 1,
             Body = [\<lparr>read_bytes = ''abcdefg'', read_err = Some EOF\<rparr>]\<rparr>)
        ''/bin/yt-dlp'' True no_files))
       = []"
  using downloadFile_progress_reports
     [of "\<lparr>StatusCode = 200, Status = ''200 OK'', ContentLength = 100,
             Body = [\<lparr>read_bytes = ''abcdefg'', read_err = Some EOF\<rparr>]\<rparr>"
         "fetching ''mp4''" binary64 "''/bin/yt-dlp''" True no_files]
    downloadFile_progress_reports
     [of "\<lparr>StatusCode = 200, Status = ''200 OK'', ContentLength = - 1,
             Body = [\<lparr>read_bytes = ''abcdefg'', read_err = Some EOF\<rparr>]\<rparr>"
         "fetching ''mp4''" binary64 "''/bin/yt-dlp''" True no_files]
  by (simp add: fetching_def no_files_def os_Create_def os_OpenFile_trunc_def os_Stat_def
      binary64_format_7 sprint_d_def decimal.simps)

section \<open>Properties of the archive extractor\<close>


lemma tar_scan_find:
  "tar_scan S destPath entries stream_end fls =
     (case find (\<lambda>h. sublist ''ffmpeg'' (tar_Name h) \<and> \<not> sublist ''doc'' (tar_Name h)
                      \<and> tar_Typeflag h = tar_TypeReg) entries of
        None \<Rightarrow>
          (case stream_end of
             None \<Rightarrow> (Some NotFoundInArchive, fls)
           | Some e \<Rightarrow> if e = EOF then (Some NotFoundInArchive, fls) else (Some e, fls))
      | Some h \<Rightarrow> tar_extract_entry S h destPath fls)"
  by (induction entries) (simp_all add: strings_Contains_sublist)

lemma zip_scan_find:
  "zip_scan S executable destDir entries fls =
     (case find (\<lambda>f. sublist executable (zip_Name f) \<and> \<not> sublist ''doc'' (zip_Name f)) entries of
        None \<Rightarrow> (Some NotFoundInArchive, fls)
      | Some f \<Rightarrow> zip_extract_entry S f (filepath_Join S [destDir, executable]) fls)"
  by (induction entries) (simp_all add: strings_Contains_sublist)

lemma tar_extract_entry_ok:
  assumes "writable S fls destPath"
  shows "fst (tar_extract_entry S h destPath fls) = None"
    and "snd (tar_extract_entry S h destPath fls) destPath
           = Some \<lparr>IsDir = False, Mode = 493, Data = tar_Data h\<rparr>"
  using assms
  by (auto simp add: writable_def tar_extract_entry_def os_Create_def os_OpenFile_trunc_def
      io_Copy_def append_data_def os_Chmod_def Let_def split: option.splits)

lemma zip_extract_entry_ok:
  assumes "writable S fls destPath" and "zip_Open f = Inr bytes"
    and "runtime_GOOS S \<noteq> ''windows''"
  shows "fst (zip_extract_entry S f destPath fls) = None"
    and "snd (zip_extract_entry S f destPath fls) destPath
           = Some \<lparr>IsDir = False, Mode = 493, Data = bytes\<rparr>"
  using assms
  by (auto simp add: writable_def zip_extract_entry_def os_OpenFile_trunc_def
      io_Copy_def append_data_def os_Chmod_def Let_def split: option.splits)

lemma tar_skips_doc:
  "extractFFMPEGFromTar (fetching ''mp4'') ''/tmp/ffmpeg-download'' None None
      \<lparr>tar_entries = [\<lparr>tar_Name = ''bin/ffmpeg-doc'', tar_Typeflag = CHR ''0'', tar_Data = ''text''\<rparr>,
                      \<lparr>tar_Name = ''bin/ffmpeg'', tar_Typeflag = CHR ''0'', tar_Data = ''ELF''\<rparr>],
        tar_end = None\<rparr>
      ''/home/u/.gostreampuller/bin'' no_files
   = (None, no_files(''/home/u/.gostreampuller/bin/ffmpeg''
              \<mapsto> \<lparr>IsDir = False, Mode = 493, Data = ''ELF''\<rparr>))"
  by (simp add: extractFFMPEGFromTar_def strings_HasSuffix_def tar_extract_entry_def tar_TypeReg_def
      os_Create_def os_OpenFile_trunc_def io_Copy_def append_data_def os_Chmod_def
      fetching_def no_files_def os_Stat_def Let_def)

lemma zip_skips_doc:
  "extractFFMPEGFromZip (fetching ''mp4'')
      (Inr [\<lparr>zip_Name = ''bin/ffmpeg-doc'', zip_Mode = 420, zip_Open = Inr ''text''\<rparr>,
            \<lparr>zip_Name = ''bin/ffmpeg'', zip_Mode = 493, zip_Open = Inr ''ELF''\<rparr>])
      ''/home/u/.gostreampuller/bin'' no_files
   = (None, no_files(''/home/u/.gostreampuller/bin/ffmpeg''
              \<mapsto> \<lparr>IsDir = False, Mode = 493, Data = ''ELF''\<rparr>))"
  by (simp add: extractFFMPEGFromZip_def zip_extract_entry_def
      os_OpenFile_trunc_def io_Copy_def append_data_def os_Chmod_def
      fetching_def no_files_def os_Stat_def Let_def)

lemma tar_extraction_selects_first_regular:
  assumes "writable S fls (filepath_Join S [destDir, ''ffmpeg''])"
    and "find (\<lambda>h. sublist ''ffmpeg'' (tar_Name h) \<and> \<not> sublist ''doc'' (tar_Name h)
                      \<and> tar_Typeflag h = tar_TypeReg) (tar_entries stream) = Some h"
  shows "fst (extractFFMPEGFromTar S tarPath None None stream destDir fls) = None"
    and "snd (extractFFMPEGFromTar S tarPath None None stream destDir fls)
           (filepath_Join S [destDir, ''ffmpeg''])
         = Some \<lparr>IsDir = False, Mode = 493, Data = tar_Data h\<rparr>"
  using assms(2) tar_extract_entry_ok [OF assms(1), of h]
  by (simp_all add: extractFFMPEGFromTar_def tar_scan_find)

lemma tar_extraction_not_found:
  assumes "find (\<lambda>h. sublist ''ffmpeg'' (tar_Name h) \<and> \<not> sublist ''doc'' (tar_Name h)
                      \<and> tar_Typeflag h = tar_TypeReg) (tar_entries stream) = None"
    and "tar_end stream = None \<or> tar_end stream = Some EOF"
  shows "extractFFMPEGFromTar S tarPath None None stream destDir fls = (Some NotFoundInArchive, fls)"
  using assms
  by (auto simp add: extractFFMPEGFromTar_def tar_scan_find)

text \<open>
  C5. The specification says: extraction selects the first regular-file entry whose
  name contains the name of the executable and does not contain \<open>doc\<close>, writes its bytes
  to the destination, makes it executable, and reports that the binary was not found
  only after a full scan. The tar extractor does so
  (\<open>tar_extraction_selects_first_regular\<close>, \<open>tar_extraction_not_found\<close>), and both
  extractors pass over \<open>bin/ffmpeg-doc\<close> and take \<open>bin/ffmpeg\<close>. The zip extractor
  tests the name only. In the archive below the first entry is the directory
  \<open>ffmpeg-7.1/\<close>, which is not a regular file; the extractor writes the empty content
  of that entry to the destination and returns \<open>nil\<close>, and the regular file
  \<open>ffmpeg-7.1/ffmpeg\<close> is never reached.
\<close>

theorem zip_selects_directory_entry:
  "\<not> zip_IsRegular \<lparr>zip_Name = ''ffmpeg-7.1/'', zip_Mode = 0x800001ED, zip_Open = Inr []\<rparr>
   \<and> zip_IsRegular \<lparr>zip_Name = ''ffmpeg-7.1/ffmpeg'', zip_Mode = 493, zip_Open = Inr ''ELF''\<rparr>
   \<and> extractFFMPEGFromZip (fetching ''mp4'')
      (Inr [\<lparr>zip_Name = ''ffmpeg-7.1/'', zip_Mode = 0x800001ED, zip_Open = Inr []\<rparr>,
            \<lparr>zip_Name = ''ffmpeg-7.1/ffmpeg'', zip_Mode = 493, zip_Open = Inr ''ELF''\<rparr>])
      ''/home/u/.gostreampuller/bin'' no_files
   = (None, no_files(''/home/u/.gostreampuller/bin/ffmpeg''
              \<mapsto> \<lparr>IsDir = False, Mode = 493, Data = []\<rparr>))"
  by (simp add: zip_IsRegular_def os_ModeType_def extractFFMPEGFromZip_def zip_extract_entry_def
      os_OpenFile_trunc_def io_Copy_def append_data_def os_Chmod_def
      fetching_def no_files_def os_Stat_def Let_def)

end
